theory Spec2Isabelle
  imports
    Complex_Main
    "HOL-Library.Sublist"
    "HOL-Library.Char_ord"
    "HOL-Library.List_Lexorder"
    "HOL-Library.Product_Lexorder"
begin

section \<open>The executive dashboard of dashboard.py\<close>

text \<open>
  The program is one procedure, \<open>crear_dashboard_ejecutivo\<close>: it reads a CSV file into a
  pandas DataFrame, cleans it, computes aggregates, builds six charts, interpolates them
  into an HTML template and writes the file, all inside one \<open>try\<close> with two handlers.
  The embedding follows the statements of the source in their order.

  Numbers. A float64 value is a finite number, one of the two infinities, or NaN; a
  finite one is modelled by the rational it denotes. The program never adds two numbers
  itself: every sum is computed by pandas (\<open>Series.sum\<close>, \<open>GroupBy.sum\<close>), and what such a
  routine returns depends on rounding, on the order of its additions and on the dtype
  of the column (float64, or int64 with wrap-around). The routines are therefore
  parameters of the embedding, like the CSV reader and the chart serialiser, and what
  is proved holds for every routine; where a property needs a sum to be exact, the
  hypothesis says so.
\<close>

subsection \<open>Cells, rows and the loaded table\<close>

datatype float64 = Fin rat | PInf | NInf | NaN

text \<open>
  A cell of a column as \<open>pd.read_csv\<close> leaves it: a number (NaN for a missing value), or
  text in a column of dtype object.
\<close>

datatype cell = Numero float64 | Texto string

text \<open>
  One record of the table (spec: Traffic Record). The key columns hold text or a year,
  \<open>None\<close> is a missing value (NaN in pandas). The nine numeric columns hold values of
  type \<open>'v\<close>: cells as loaded, float64 values once cleaned. \<open>Route\<close> is the column that
  line 50 adds; it is meaningful once the header names it.
\<close>

record 'v row =
  AustralianPort :: "string option"
  ForeignPort :: "string option"
  Country :: "string option"
  Year :: "int option"
  Passengers_In :: 'v
  Freight_In :: 'v
  Mail_In :: 'v
  Passengers_Out :: 'v
  Freight_Out :: 'v
  Mail_Out :: 'v
  Passengers_Total :: 'v
  Freight_Total :: 'v
  Mail_Total :: 'v
  Route :: "string option"

text \<open>The DataFrame: the header (\<open>df.columns\<close>) and the records.\<close>

record 'v dataframe =
  columns :: "string list"
  filas :: "'v row list"

text \<open>The exceptions the stages raise; every one of them derives from \<open>Exception\<close>.\<close>

datatype exn =
    FileNotFoundError string
  | KeyError string
  | TypeError string
  | ValueError string
  | ParserError string
  | OSError string
  | NameError string

subsection \<open>Lines 17 to 24: column names and numeric coercion\<close>

text \<open>
  Strings are the UTF-8 bytes of the text. \<open>str.replace\<close> with a non-empty pattern:
  leftmost occurrences, not overlapping. The source passes the literals \<open>_(tonnes)\<close> and
  \<open>__\<close>; with an empty pattern (not used by the source) this definition returns the
  string unchanged.
\<close>

fun replace :: "string \<Rightarrow> string \<Rightarrow> string \<Rightarrow> string" where
  "replace old new [] = []"
| "replace old new (c # cs) =
     (if old \<noteq> [] \<and> prefix old (c # cs)
      then new @ replace old new (drop (length old) (c # cs))
      else c # replace old new cs)"

text \<open>
  \<open>str.strip()\<close> removes the white space at both ends: the characters for which
  \<open>str.isspace\<close> holds, here in their UTF-8 encoding (U+0009 to U+000D, U+001C to
  U+0020, U+0085, U+00A0, U+1680, U+2000 to U+200A, U+2028, U+2029, U+202F, U+205F,
  U+3000).
\<close>

definition espacios :: "string list" where
  "espacios =
     [[CHR 0x09], [CHR 0x0A], [CHR 0x0B], [CHR 0x0C], [CHR 0x0D],
      [CHR 0x1C], [CHR 0x1D], [CHR 0x1E], [CHR 0x1F], [CHR 0x20],
      [CHR 0xC2, CHR 0x85], [CHR 0xC2, CHR 0xA0], [CHR 0xE1, CHR 0x9A, CHR 0x80],
      [CHR 0xE2, CHR 0x80, CHR 0x80], [CHR 0xE2, CHR 0x80, CHR 0x81],
      [CHR 0xE2, CHR 0x80, CHR 0x82], [CHR 0xE2, CHR 0x80, CHR 0x83],
      [CHR 0xE2, CHR 0x80, CHR 0x84], [CHR 0xE2, CHR 0x80, CHR 0x85],
      [CHR 0xE2, CHR 0x80, CHR 0x86], [CHR 0xE2, CHR 0x80, CHR 0x87],
      [CHR 0xE2, CHR 0x80, CHR 0x88], [CHR 0xE2, CHR 0x80, CHR 0x89],
      [CHR 0xE2, CHR 0x80, CHR 0x8A], [CHR 0xE2, CHR 0x80, CHR 0xA8],
      [CHR 0xE2, CHR 0x80, CHR 0xA9], [CHR 0xE2, CHR 0x80, CHR 0xAF],
      [CHR 0xE2, CHR 0x81, CHR 0x9F], [CHR 0xE3, CHR 0x80, CHR 0x80]]"

text \<open>Removing from the front of a string every leading occurrence of one of the patterns.\<close>

function quitar :: "string list \<Rightarrow> string \<Rightarrow> string" where
  "quitar ps s =
     (case find (\<lambda>p. p \<noteq> [] \<and> prefix p s) ps of
        None \<Rightarrow> s
      | Some p \<Rightarrow> quitar ps (drop (length p) s))"
  by pat_completeness auto
termination
proof (relation "measure (\<lambda>(ps, s). length s)")
  show "wf (measure (\<lambda>(ps, s). length s))" by simp
next
  fix ps :: "string list" and s p :: string
  assume "find (\<lambda>p. p \<noteq> [] \<and> prefix p s) ps = Some p"
  then have "p \<noteq> []" and "prefix p s" by (auto simp add: find_Some_iff)
  then have "s \<noteq> []" by auto
  with \<open>p \<noteq> []\<close> show "((ps, drop (length p) s), (ps, s)) \<in> measure (\<lambda>(ps, s). length s)"
    by simp
qed

declare quitar.simps [simp del]

definition strip :: "string \<Rightarrow> string" where
  "strip s = rev (quitar (map rev espacios) (rev (quitar espacios s)))"

text \<open>Line 18: \<open>col.replace('_(tonnes)', '').replace('__', '_').strip()\<close>.\<close>

definition limpiar_nombre :: "string \<Rightarrow> string" where
  "limpiar_nombre col = strip (replace ''__'' ''_'' (replace ''_(tonnes)'' '''' col))"

definition renombrar :: "'v dataframe \<Rightarrow> 'v dataframe" where
  "renombrar df = df\<lparr>columns := map limpiar_nombre (columns df)\<rparr>"

definition cols_numericas :: "string list" where
  "cols_numericas = [''Passengers_In'', ''Freight_In'', ''Mail_In'', ''Passengers_Out'',
     ''Freight_Out'', ''Mail_Out'', ''Passengers_Total'', ''Freight_Total'', ''Mail_Total'']"

text \<open>Reading one of the nine numeric columns by its name.\<close>

definition col :: "string \<Rightarrow> 'v row \<Rightarrow> 'v" where
  "col c r =
     (if c = ''Passengers_In'' then Passengers_In r
      else if c = ''Freight_In'' then Freight_In r
      else if c = ''Mail_In'' then Mail_In r
      else if c = ''Passengers_Out'' then Passengers_Out r
      else if c = ''Freight_Out'' then Freight_Out r
      else if c = ''Mail_Out'' then Mail_Out r
      else if c = ''Passengers_Total'' then Passengers_Total r
      else if c = ''Freight_Total'' then Freight_Total r
      else Mail_Total r)"

text \<open>
  \<open>pd.to_numeric(..., errors='coerce')\<close> on one cell: a number stays as it is, text is
  read by the library's number reader \<open>parse\<close> (a parameter: its grammar is pandas', not
  this program's), and text that does not read as a number becomes NaN.
\<close>

definition to_numeric :: "(string \<Rightarrow> float64 option) \<Rightarrow> cell \<Rightarrow> float64" where
  "to_numeric parse c =
     (case c of
        Numero x \<Rightarrow> x
      | Texto s \<Rightarrow> (case parse s of Some x \<Rightarrow> x | None \<Rightarrow> NaN))"

text \<open>\<open>.fillna(v)\<close> replaces NaN, and only NaN.\<close>

definition fillna :: "float64 \<Rightarrow> float64 \<Rightarrow> float64" where
  "fillna v x = (if x = NaN then v else x)"

definition coerce :: "(string \<Rightarrow> float64 option) \<Rightarrow> cell \<Rightarrow> float64" where
  "coerce parse c = fillna (Fin 0) (to_numeric parse c)"

text \<open>
  Line 24 reads \<open>df[col]\<close>: KeyError when the header lacks the name; when the renaming
  has left the name twice in the header, \<open>df[col]\<close> is a DataFrame and \<open>pd.to_numeric\<close>
  raises TypeError.
\<close>

definition falla_col :: "string list \<Rightarrow> string \<Rightarrow> exn option" where
  "falla_col header c =
     (if c \<notin> set header then Some (KeyError c)
      else if count_list header c \<noteq> 1
      then Some (TypeError ''arg must be a list, tuple, 1-d array, or Series'')
      else None)"

text \<open>
  The loop of lines 23 and 24 ends at the first column that raises; the assignments
  leave the header as it is, so the outcome for a column does not depend on the
  columns before it.
\<close>

fun primera_falla :: "string list \<Rightarrow> string list \<Rightarrow> exn option" where
  "primera_falla header [] = None"
| "primera_falla header (c # cs) =
     (case falla_col header c of
        Some e \<Rightarrow> Some e
      | None \<Rightarrow> primera_falla header cs)"

text \<open>The record once each of the nine columns has been assigned its coerced values.\<close>

definition limpiar_fila :: "(string \<Rightarrow> float64 option) \<Rightarrow> cell row \<Rightarrow> float64 row" where
  "limpiar_fila parse r =
     \<lparr>AustralianPort = AustralianPort r, ForeignPort = ForeignPort r,
      Country = Country r, Year = Year r,
      Passengers_In = coerce parse (Passengers_In r),
      Freight_In = coerce parse (Freight_In r),
      Mail_In = coerce parse (Mail_In r),
      Passengers_Out = coerce parse (Passengers_Out r),
      Freight_Out = coerce parse (Freight_Out r),
      Mail_Out = coerce parse (Mail_Out r),
      Passengers_Total = coerce parse (Passengers_Total r),
      Freight_Total = coerce parse (Freight_Total r),
      Mail_Total = coerce parse (Mail_Total r),
      Route = Route r\<rparr>"

text \<open>Lines 23 and 24 on the renamed table, and lines 18 to 24: the cleaning stage.\<close>

definition coercer :: "(string \<Rightarrow> float64 option) \<Rightarrow> cell dataframe \<Rightarrow> exn + float64 dataframe" where
  "coercer parse df =
     (case primera_falla (columns df) cols_numericas of
        Some e \<Rightarrow> Inl e
      | None \<Rightarrow> Inr \<lparr>columns = columns df, filas = map (limpiar_fila parse) (filas df)\<rparr>)"

definition limpiar :: "(string \<Rightarrow> float64 option) \<Rightarrow> cell dataframe \<Rightarrow> exn + float64 dataframe" where
  "limpiar parse df = coercer parse (renombrar df)"

fun finito :: "float64 \<Rightarrow> bool" where
  "finito (Fin q) = True"
| "finito x = False"

subsection \<open>The sums of pandas\<close>

text \<open>
  \<open>suma\<close> is the type of a summation routine: the values of a column, or of the rows of
  one group, in the order of the table, to their sum. The program uses two, each on the
  columns Passengers_Total, Freight_Total and Mail_Total: \<open>Series.sum\<close> (lines 29 to
  31) and \<open>GroupBy.sum\<close> (lines 37 to 54). Both are indexed by the name of the column,
  whose dtype decides between float64 and int64 arithmetic.
\<close>

type_synonym suma = "float64 list \<Rightarrow> float64"

text \<open>
  A list of whole numbers whose magnitudes sum to less than \<open>2 ^ 53\<close>: every partial
  sum, in any order and grouping, is then a whole number below \<open>2 ^ 53\<close>, which float64
  and int64 both represent, so no addition rounds or wraps. A routine is exact when on
  such lists it returns the sum.
\<close>

fun entero :: "float64 \<Rightarrow> bool" where
  "entero (Fin q) = (of_int \<lfloor>q\<rfloor> = q)"
| "entero x = False"

fun magnitud :: "float64 \<Rightarrow> rat" where
  "magnitud (Fin q) = \<bar>q\<bar>"
| "magnitud x = 0"

fun racional :: "float64 \<Rightarrow> rat" where
  "racional (Fin q) = q"
| "racional x = 0"

definition enteros_pequenos :: "float64 list \<Rightarrow> bool" where
  "enteros_pequenos xs \<longleftrightarrow> list_all entero xs \<and> sum_list (map magnitud xs) < 2 ^ 53"

definition exacta :: "suma \<Rightarrow> bool" where
  "exacta s \<longleftrightarrow> (\<forall>xs. enteros_pequenos xs \<longrightarrow> s xs = Fin (sum_list (map racional xs)))"

subsection \<open>Lines 29 to 34: the KPIs and the years\<close>

type_synonym tabla = "float64 row list"

definition total_passengers :: "(string \<Rightarrow> suma) \<Rightarrow> tabla \<Rightarrow> float64" where
  "total_passengers s t = s ''Passengers_Total'' (map Passengers_Total t)"

definition total_freight :: "(string \<Rightarrow> suma) \<Rightarrow> tabla \<Rightarrow> float64" where
  "total_freight s t = s ''Freight_Total'' (map Freight_Total t)"

definition total_mail :: "(string \<Rightarrow> suma) \<Rightarrow> tabla \<Rightarrow> float64" where
  "total_mail s t = s ''Mail_Total'' (map Mail_Total t)"

text \<open>The years present; a missing year is skipped by \<open>nunique\<close>, \<open>min\<close> and \<open>max\<close>.\<close>

definition years :: "'v row list \<Rightarrow> int list" where
  "years t = List.map_filter Year t"

definition num_years :: "'v row list \<Rightarrow> nat" where
  "num_years t = length (remdups (years t))"

definition start_year :: "'v row list \<Rightarrow> int option" where
  "start_year t = (case years t of [] \<Rightarrow> None | y # ys \<Rightarrow> Some (fold min ys y))"

definition end_year :: "'v row list \<Rightarrow> int option" where
  "end_year t = (case years t of [] \<Rightarrow> None | y # ys \<Rightarrow> Some (fold max ys y))"

subsection \<open>Lines 37 to 54: grouping, the yearly table and the rankings\<close>

text \<open>
  \<open>df.groupby(key)\<close> has one group for each key value present, in ascending order of the
  key (\<open>sort=True\<close>); rows whose key is missing belong to no group (\<open>dropna=True\<close>).
  \<open>[val].sum()\<close> gives each group the sum of its values, as \<open>GroupBy.sum\<close> computes it.
\<close>

definition claves :: "('r \<Rightarrow> 'k::linorder option) \<Rightarrow> 'r list \<Rightarrow> 'k list" where
  "claves key t = sort (remdups (List.map_filter key t))"

definition grupo :: "('r \<Rightarrow> 'k option) \<Rightarrow> 'k \<Rightarrow> 'r list \<Rightarrow> 'r list" where
  "grupo key k t = filter (\<lambda>r. key r = Some k) t"

definition groupby_sum ::
  "suma \<Rightarrow> ('r \<Rightarrow> 'k::linorder option) \<Rightarrow> ('r \<Rightarrow> float64) \<Rightarrow> 'r list \<Rightarrow> ('k \<times> float64) list" where
  "groupby_sum g key val t = map (\<lambda>k. (k, g (map val (grupo key k t)))) (claves key t)"

text \<open>Lines 37 to 41: one row for each year, with the three sums.\<close>

definition yearly_traffic ::
  "(string \<Rightarrow> suma) \<Rightarrow> tabla \<Rightarrow> (int \<times> float64 \<times> float64 \<times> float64) list" where
  "yearly_traffic g t =
     map (\<lambda>y. (y, g ''Passengers_Total'' (map Passengers_Total (grupo Year y t)),
                  g ''Freight_Total'' (map Freight_Total (grupo Year y t)),
                  g ''Mail_Total'' (map Mail_Total (grupo Year y t))))
         (claves Year t)"

text \<open>The three summed columns of the yearly table.\<close>

fun yt_Passengers_Total :: "int \<times> float64 \<times> float64 \<times> float64 \<Rightarrow> float64" where
  "yt_Passengers_Total (y, p, f, m) = p"

fun yt_Freight_Total :: "int \<times> float64 \<times> float64 \<times> float64 \<Rightarrow> float64" where
  "yt_Freight_Total (y, p, f, m) = f"

fun yt_Mail_Total :: "int \<times> float64 \<times> float64 \<times> float64 \<Rightarrow> float64" where
  "yt_Mail_Total (y, p, f, m) = m"


text \<open>
  The places that pandas gives to values when it sorts: ascending, and descending; in
  both NaN comes last (\<open>na_position='last'\<close>, and \<open>nlargest\<close> sets NaN aside and appends
  it).
\<close>

fun clave_asc :: "float64 \<Rightarrow> nat \<times> rat" where
  "clave_asc NInf = (0, 0)"
| "clave_asc (Fin q) = (1, q)"
| "clave_asc PInf = (2, 0)"
| "clave_asc NaN = (3, 0)"

fun clave_desc :: "float64 \<Rightarrow> nat \<times> rat" where
  "clave_desc PInf = (0, 0)"
| "clave_desc (Fin q) = (1, - q)"
| "clave_desc NInf = (2, 0)"
| "clave_desc NaN = (3, 0)"

text \<open>
  \<open>Series.nlargest(n)\<close> (\<open>keep='first'\<close>): the \<open>n\<close> entries of largest value, in descending
  order, entries whose value is NaN after all others. \<open>sort_values(ascending=True)\<close>: by
  value, ascending, NaN last. Entries of equal value keep their order here; the order
  pandas gives them in \<open>sort_values\<close> depends on its sorting routine.
\<close>

definition nlargest :: "nat \<Rightarrow> ('k \<times> float64) list \<Rightarrow> ('k \<times> float64) list" where
  "nlargest n s = take n (sort_key (\<lambda>kv. clave_desc (snd kv)) s)"

definition sort_values :: "('k \<times> float64) list \<Rightarrow> ('k \<times> float64) list" where
  "sort_values s = sort_key (\<lambda>kv. clave_asc (snd kv)) s"

definition top10 ::
  "suma \<Rightarrow> ('r \<Rightarrow> 'k::linorder option) \<Rightarrow> ('r \<Rightarrow> float64) \<Rightarrow> 'r list \<Rightarrow> ('k \<times> float64) list" where
  "top10 g key val t = sort_values (nlargest 10 (groupby_sum g key val t))"


definition top_aus_ports :: "(string \<Rightarrow> suma) \<Rightarrow> tabla \<Rightarrow> (string \<times> float64) list" where
  "top_aus_ports g t = top10 (g ''Passengers_Total'') AustralianPort Passengers_Total t"

definition top_countries :: "(string \<Rightarrow> suma) \<Rightarrow> tabla \<Rightarrow> (string \<times> float64) list" where
  "top_countries g t = top10 (g ''Passengers_Total'') Country Passengers_Total t"

text \<open>
  Line 50: \<open>df['Route'] = df['AustralianPort'] + ' - ' + df['ForeignPort']\<close>, a missing
  port giving a missing route.
\<close>

definition ruta :: "'v row \<Rightarrow> string option" where
  "ruta r =
     (case (AustralianPort r, ForeignPort r) of
        (Some a, Some f) \<Rightarrow> Some (a @ '' - '' @ f)
      | _ \<Rightarrow> None)"

definition con_ruta :: "'v row list \<Rightarrow> 'v row list" where
  "con_ruta t = map (\<lambda>r. r\<lparr>Route := ruta r\<rparr>) t"

definition top_routes :: "(string \<Rightarrow> suma) \<Rightarrow> tabla \<Rightarrow> (string \<times> float64) list" where
  "top_routes g t = top10 (g ''Passengers_Total'') Route Passengers_Total (con_ruta t)"

subsection \<open>Lines 54 to 75: the country table and the ISO codes\<close>

definition country_iso_map :: "(string \<times> string option) list" where
  "country_iso_map =
    [(''USA'', Some ''USA''), (''UK'', Some ''GBR''), (''New Zealand'', Some ''NZL''),
     (''Singapore'', Some ''SGP''), (''Japan'', Some ''JPN''), (''Hong Kong'', Some ''HKG''),
     (''Germany'', Some ''DEU''), (''Malaysia'', Some ''MYS''), (''Indonesia'', Some ''IDN''),
     (''Canada'', Some ''CAN''), (''Thailand'', Some ''THA''), (''Fiji'', Some ''FJI''),
     (''United Arab Emirates'', Some ''ARE''), (''Philippines'', Some ''PHL''),
     (''Italy'', Some ''ITA''), (''Papua New Guinea'', Some ''PNG''), (''France'', Some ''FRA''),
     (''India'', Some ''IND''), (''Korea'', Some ''KOR''), (''South Africa'', Some ''ZAF''),
     (''Netherlands'', Some ''NLD''), (''Taiwan'', Some ''TWN''), (''China'', Some ''CHN''),
     (''Greece'', Some ''GRC''), (''Switzerland'', Some ''CHE''), (''Ireland'', Some ''IRL''),
     (''Austria'', Some ''AUT''), (''Sweden'', Some ''SWE''), (''Denmark'', Some ''DNK''),
     (''Norway'', Some ''NOR''), (''Spain'', Some ''ESP''), (''Yugoslavia'', Some ''YUG''),
     (''Western Samoa'', Some ''WSM''), (''Cook Islands'', Some ''COK''),
     (''Vanuatu'', Some ''VUT''), (''Solomon Islands'', Some ''SLB''),
     (''New Caledonia'', Some ''NCL''), (''Tahiti'', Some ''PYF''), (''Tonga'', Some ''TON''),
     (''Nauru'', Some ''NRU''), (''Mauritius'', Some ''MUS''), (''Zimbabwe'', Some ''ZWE''),
     (''Bahrain'', Some ''BHR''), (''Saudi Arabia'', Some ''SAU''), (''Brunei'', Some ''BRN''),
     (''Sri Lanka'', Some ''LKA''), (''Pakistan'', Some ''PAK''), (''Bangladesh'', Some ''BGD''),
     (''Egypt'', Some ''EGY''), (''Kenya'', Some ''KEN''), (''Zambia'', Some ''ZMB''),
     (''Argentina'', Some ''ARG''), (''Brazil'', Some ''BRA''), (''Chile'', Some ''CHL''),
     (''Mexico'', Some ''MEX''), (''Other'', None)]"

text \<open>
  \<open>Series.map(dict)\<close>: a name that is not a key of the dict gives a missing value, and
  so does a key whose value is \<open>None\<close>.
\<close>

definition iso_alpha :: "string \<Rightarrow> string option" where
  "iso_alpha c = (case map_of country_iso_map c of None \<Rightarrow> None | Some v \<Rightarrow> v)"

text \<open>
  \<open>country_passengers\<close>: line 54 makes the two columns Country and Passengers_Total,
  line 75 adds the column iso_alpha to the same table.
\<close>

record cp_row =
  cp_Country :: string
  cp_Passengers_Total :: float64
  cp_iso_alpha :: "string option"

definition country_sums :: "(string \<Rightarrow> suma) \<Rightarrow> tabla \<Rightarrow> (string \<times> float64) list" where
  "country_sums g t = groupby_sum (g ''Passengers_Total'') Country Passengers_Total t"

definition country_passengers :: "(string \<Rightarrow> suma) \<Rightarrow> tabla \<Rightarrow> cp_row list" where
  "country_passengers g t =
     map (\<lambda>(c, v). \<lparr>cp_Country = c, cp_Passengers_Total = v, cp_iso_alpha = iso_alpha c\<rparr>)
         (country_sums g t)"

subsection \<open>Lines 83 to 127: the six figures\<close>

text \<open>
  A figure holds the data series handed to plotly; its titles, labels and colours are
  constants of the source and are fixed by the number of the chart (1 to 6 in the
  comments of the source). The choropleth of line 121 takes its locations from the
  column iso_alpha, its colours from Passengers_Total and its hover names from
  Country, row by row.
\<close>

datatype figura =
    Area nat "int list" "float64 list"
  | Barra nat "float64 list" "string list"
  | Coropleta nat (locations: "string option list") (color: "float64 list")
      (hover_name: "string list")

definition fig_passengers_trend :: "(int \<times> float64 \<times> float64 \<times> float64) list \<Rightarrow> figura" where
  "fig_passengers_trend yt = Area 1 (map fst yt) (map yt_Passengers_Total yt)"

definition fig_freight_trend :: "(int \<times> float64 \<times> float64 \<times> float64) list \<Rightarrow> figura" where
  "fig_freight_trend yt = Area 2 (map fst yt) (map yt_Freight_Total yt)"

definition fig_top_ports :: "(string \<times> float64) list \<Rightarrow> figura" where
  "fig_top_ports ranking = Barra 3 (map snd ranking) (map fst ranking)"

definition fig_top_countries :: "(string \<times> float64) list \<Rightarrow> figura" where
  "fig_top_countries ranking = Barra 4 (map snd ranking) (map fst ranking)"

definition fig_top_routes :: "(string \<times> float64) list \<Rightarrow> figura" where
  "fig_top_routes ranking = Barra 5 (map snd ranking) (map fst ranking)"

definition fig_map :: "cp_row list \<Rightarrow> figura" where
  "fig_map cp = Coropleta 6 (map cp_iso_alpha cp) (map cp_Passengers_Total cp) (map cp_Country cp)"

subsection \<open>Lines 130 to 218: the HTML document\<close>

definition digito :: "nat \<Rightarrow> char" where
  "digito d = char_of (48 + d)"

fun digitos :: "nat \<Rightarrow> string" where
  "digitos n = (if n < 10 then [digito n] else digitos (n div 10) @ [digito (n mod 10)])"

declare digitos.simps [simp del]

definition str_int :: "int \<Rightarrow> string" where
  "str_int i = (if i < 0 then ''-'' @ digitos (nat (- i)) else digitos (nat i))"

text \<open>
  \<open>{start_year}\<close> and \<open>{end_year}\<close>: the Year column is int64 when no year is missing and
  float64 otherwise, so the year prints as \<open>1985\<close> or as \<open>1985.0\<close>; with no year at all
  the minimum is NaN.
\<close>

definition year_int64 :: "'v row list \<Rightarrow> bool" where
  "year_int64 t = list_all (\<lambda>r. Year r \<noteq> None) t"

definition str_year :: "bool \<Rightarrow> int option \<Rightarrow> string" where
  "str_year int64 y =
     (case y of
        None \<Rightarrow> ''nan''
      | Some v \<Rightarrow> if int64 then str_int v else str_int v @ ''.0'')"

text \<open>
  The format \<open>:,.0f\<close> of a float. A finite value is rounded to an integer, ties to the
  even neighbour, and written with its digits in groups of three separated by commas,
  after a minus sign when the value is negative; an infinity is written \<open>inf\<close> or
  \<open>-inf\<close> and NaN is written \<open>nan\<close>.
\<close>

definition redondear :: "rat \<Rightarrow> int" where
  "redondear x =
     (let f = \<lfloor>x\<rfloor>; d = x - of_int f
      in if d < 1 / 2 then f else if 1 / 2 < d then f + 1 else if even f then f else f + 1)"

definition tres :: "nat \<Rightarrow> string" where
  "tres k = [digito (k div 100), digito (k div 10 mod 10), digito (k mod 10)]"

fun miles :: "nat \<Rightarrow> string" where
  "miles n = (if n < 1000 then digitos n else miles (n div 1000) @ '','' @ tres (n mod 1000))"

declare miles.simps [simp del]

fun formato_kpi :: "float64 \<Rightarrow> string" where
  "formato_kpi (Fin x) = (if x < 0 then ''-'' else []) @ miles (nat (redondear \<bar>x\<bar>))"
| "formato_kpi PInf = ''inf''"
| "formato_kpi NInf = ''-inf''"
| "formato_kpi NaN = ''nan''"

declare formato_kpi.simps [simp del]

text \<open>
  Reading a KPI text back, to state what it denotes: the digits are decimal digits, the
  commas split the text into groups (the first of one to three digits, the others of
  three), and the number is the digits without the commas, negated after a minus sign.
\<close>

definition es_digito :: "char \<Rightarrow> bool" where
  "es_digito c \<longleftrightarrow> 48 \<le> (of_char c :: nat) \<and> (of_char c :: nat) \<le> 57"

definition valor_dec :: "string \<Rightarrow> nat" where
  "valor_dec s = fold (\<lambda>c n. 10 * n + (of_char c - 48)) s 0"







text \<open>
  \<open>fig.to_html(full_html=False, include_plotlyjs=False, config=...)\<close>: a \<open>div\<close> that holds
  the chart's container and the script that draws into it. The call passes no \<open>div_id\<close>,
  so plotly names the container with a fresh \<open>uuid.uuid4()\<close>, here the argument
  \<open>div_id\<close>. The serialisation of the figure is plotly's (\<open>json\<close>); the fragment is
  abridged to its structure, its fixed white space and script preamble left out.
\<close>

definition comillas :: "string \<Rightarrow> string" where
  "comillas s = [CHR 0x22] @ s @ [CHR 0x22]"

definition to_html :: "(figura \<Rightarrow> string) \<Rightarrow> string \<Rightarrow> figura \<Rightarrow> string" where
  "to_html json div_id fig =
     ''<div><div id='' @ comillas div_id @ '' class='' @ comillas ''plotly-graph-div''
       @ ''></div><script>if (document.getElementById('' @ comillas div_id
       @ '')) {Plotly.newPlot('' @ comillas div_id @ '','' @ json fig
       @ '')};</script></div>''"

text \<open>
  What the libraries contribute and this program does not define: the CSV reader; the
  reader of numbers in text; the two summation routines, by column; the conversion of
  a sum to the Python float that the format code \<open>f\<close> renders (a float64 sum is
  unchanged, an int64 sum is unchanged up to \<open>2 ^ 53\<close> and rounded beyond); the
  serialisation of a figure; and the fixed text of the template.
\<close>

record biblioteca =
  lib_read_csv :: "string \<Rightarrow> exn + cell dataframe"
  lib_parse :: "string \<Rightarrow> float64 option"
  lib_sum :: "string \<Rightarrow> suma"
  lib_gsum :: "string \<Rightarrow> suma"
  lib_float :: "float64 \<Rightarrow> float64"
  lib_json :: "figura \<Rightarrow> string"
  lib_seg :: "nat \<Rightarrow> string"

text \<open>
  The f-string of lines 130 to 218, given the values of the variables it interpolates:
  the two years as printed, the three KPIs and the six figures (in the order of their
  creation). \<open>lib_seg\<close> gives the fixed texts of the template between the
  interpolations: \<open>lib_seg lib 0\<close> runs up to \<open>{start_year}\<close>, \<open>lib_seg lib 1\<close> from
  \<open>{end_year}\<close> to the first KPI, and so on; \<open>lib_seg lib 10\<close> closes the document.
  \<open>ids k\<close> is the identifier drawn by the call of \<open>to_html\<close> number \<open>k\<close>, the calls being
  evaluated from left to right.
\<close>

definition kpi_texto :: "biblioteca \<Rightarrow> float64 \<Rightarrow> string" where
  "kpi_texto lib v = formato_kpi (lib_float lib v)"

definition plantilla ::
  "biblioteca \<Rightarrow> (nat \<Rightarrow> string) \<Rightarrow> string \<Rightarrow> string \<Rightarrow> float64 \<Rightarrow> float64 \<Rightarrow> float64
     \<Rightarrow> figura \<Rightarrow> figura \<Rightarrow> figura \<Rightarrow> figura \<Rightarrow> figura \<Rightarrow> figura \<Rightarrow> string" where
  "plantilla lib ids sy ey tp tf tm f_passengers f_freight f_ports f_countries f_routes f_map =
     lib_seg lib 0 @ sy @ ''-'' @ ey
     @ lib_seg lib 1 @ kpi_texto lib tp
     @ lib_seg lib 2 @ kpi_texto lib tf
     @ lib_seg lib 3 @ kpi_texto lib tm
     @ lib_seg lib 4 @ to_html (lib_json lib) (ids 0) f_passengers
     @ lib_seg lib 5 @ to_html (lib_json lib) (ids 1) f_freight
     @ lib_seg lib 6 @ to_html (lib_json lib) (ids 2) f_map
     @ lib_seg lib 7 @ to_html (lib_json lib) (ids 3) f_ports
     @ lib_seg lib 8 @ to_html (lib_json lib) (ids 4) f_countries
     @ lib_seg lib 9 @ to_html (lib_json lib) (ids 5) f_routes
     @ lib_seg lib 10"


text \<open>
  Lines 26 to 218 on the cleaned table. The key columns are looked up by name in the
  order of the statements (lines 32, 37, 44, 47, 50): a missing one raises KeyError, and
  one that the renaming has left twice in the header makes the grouping (or, for
  ForeignPort, the assignment of Route) raise ValueError.
\<close>

definition columna_clave :: "string \<Rightarrow> 'v dataframe \<Rightarrow> exn option" where
  "columna_clave c df =
     (if c \<notin> set (columns df) then Some (KeyError c)
      else if count_list (columns df) c \<noteq> 1
      then Some (ValueError (''Grouper for '' @ [CHR 0x27] @ c @ [CHR 0x27] @ '' not 1-dimensional''))
      else None)"

definition columna_foreign :: "'v dataframe \<Rightarrow> exn option" where
  "columna_foreign df =
     (if ''ForeignPort'' \<notin> set (columns df) then Some (KeyError ''ForeignPort'')
      else if count_list (columns df) ''ForeignPort'' \<noteq> 1
      then Some (ValueError
             ''Cannot set a DataFrame with multiple columns to the single column Route'')
      else None)"



subsection \<open>The statements of lines 15 to 218 on a store\<close>

text \<open>
  The same statements as a program on a store of the variables, each statement a step
  that reads the store and returns it updated, or raises. A variable is \<open>None\<close> until
  the statement that creates it (reading it before would raise NameError). The loaded
  table \<open>df\<close> is one object throughout: as loaded and renamed it holds cells, from the
  loop of lines 23 and 24 on it holds float64 values. \<open>country_passengers\<close> is kept with
  its header, as the DataFrame it is; the figures are kept in the order of their
  creation.
\<close>

record cp_frame =
  cp_columns :: "string list"
  cp_filas :: "cp_row list"

datatype df_val = Cruda "cell dataframe" | Limpia "float64 dataframe"

record estado =
  e_df :: "df_val option"
  e_kpis :: "(float64 \<times> float64 \<times> float64) option"
  e_years :: "(nat \<times> string \<times> string) option"
  e_yearly_traffic :: "(int \<times> float64 \<times> float64 \<times> float64) list option"
  e_top_aus_ports :: "(string \<times> float64) list option"
  e_top_countries :: "(string \<times> float64) list option"
  e_top_routes :: "(string \<times> float64) list option"
  e_country_passengers :: "cp_frame option"
  e_figs :: "figura list"
  e_html :: "string option"

definition vacio :: estado where
  "vacio = \<lparr>e_df = None, e_kpis = None, e_years = None, e_yearly_traffic = None,
     e_top_aus_ports = None, e_top_countries = None, e_top_routes = None,
     e_country_passengers = None, e_figs = [], e_html = None\<rparr>"

text \<open>
  The statements from line 29 on read the cleaned table. (On a table that has not been
  coerced the embedding does not say what pandas would compute and raises TypeError;
  the program never gets there.)
\<close>

definition leer_df :: "estado \<Rightarrow> exn + float64 dataframe" where
  "leer_df s =
     (case e_df s of
        None \<Rightarrow> Inl (NameError ''df'')
      | Some (Cruda d) \<Rightarrow> Inl (TypeError ''df holds cells that are not numbers'')
      | Some (Limpia d) \<Rightarrow> Inr d)"

definition linea_15 :: "biblioteca \<Rightarrow> string \<Rightarrow> estado \<Rightarrow> exn + estado" where
  "linea_15 lib txt s =
     (case lib_read_csv lib txt of
        Inl e \<Rightarrow> Inl e
      | Inr df \<Rightarrow> Inr (s\<lparr>e_df := Some (Cruda df)\<rparr>))"

text \<open>Line 18 assigns the header of \<open>df\<close> itself.\<close>

definition linea_18 :: "estado \<Rightarrow> exn + estado" where
  "linea_18 s =
     (case e_df s of
        None \<Rightarrow> Inl (NameError ''df'')
      | Some (Cruda d) \<Rightarrow> Inr (s\<lparr>e_df := Some (Cruda (renombrar d))\<rparr>)
      | Some (Limpia d) \<Rightarrow> Inr (s\<lparr>e_df := Some (Limpia (renombrar d))\<rparr>))"

text \<open>Lines 23 and 24 assign nine columns of \<open>df\<close> itself.\<close>

definition linea_24 :: "biblioteca \<Rightarrow> estado \<Rightarrow> exn + estado" where
  "linea_24 lib s =
     (case e_df s of
        None \<Rightarrow> Inl (NameError ''df'')
      | Some (Cruda d) \<Rightarrow>
          (case coercer (lib_parse lib) d of
             Inl e \<Rightarrow> Inl e
           | Inr d' \<Rightarrow> Inr (s\<lparr>e_df := Some (Limpia d')\<rparr>))
      | Some (Limpia d) \<Rightarrow>
          (case primera_falla (columns d) cols_numericas of
             Some e \<Rightarrow> Inl e
           | None \<Rightarrow> Inr s))"

definition linea_29 :: "biblioteca \<Rightarrow> estado \<Rightarrow> exn + estado" where
  "linea_29 lib s =
     (case leer_df s of
        Inl e \<Rightarrow> Inl e
      | Inr d \<Rightarrow> Inr (s\<lparr>e_kpis := Some (total_passengers (lib_sum lib) (filas d),
                                        total_freight (lib_sum lib) (filas d),
                                        total_mail (lib_sum lib) (filas d))\<rparr>))"

text \<open>
  Lines 32 to 34; the store keeps the two years as they print. (With Year twice in the
  header the three values are Series; line 37 then raises.)
\<close>

definition linea_32 :: "estado \<Rightarrow> exn + estado" where
  "linea_32 s =
     (case leer_df s of
        Inl e \<Rightarrow> Inl e
      | Inr d \<Rightarrow>
          if ''Year'' \<notin> set (columns d) then Inl (KeyError ''Year'')
          else Inr (s\<lparr>e_years := Some (num_years (filas d),
                          str_year (year_int64 (filas d)) (start_year (filas d)),
                          str_year (year_int64 (filas d)) (end_year (filas d)))\<rparr>))"

definition linea_37 :: "biblioteca \<Rightarrow> estado \<Rightarrow> exn + estado" where
  "linea_37 lib s =
     (case leer_df s of
        Inl e \<Rightarrow> Inl e
      | Inr d \<Rightarrow>
          (case columna_clave ''Year'' d of
             Some e \<Rightarrow> Inl e
           | None \<Rightarrow> Inr (s\<lparr>e_yearly_traffic := Some (yearly_traffic (lib_gsum lib) (filas d))\<rparr>)))"

definition linea_44 :: "biblioteca \<Rightarrow> estado \<Rightarrow> exn + estado" where
  "linea_44 lib s =
     (case leer_df s of
        Inl e \<Rightarrow> Inl e
      | Inr d \<Rightarrow>
          (case columna_clave ''AustralianPort'' d of
             Some e \<Rightarrow> Inl e
           | None \<Rightarrow> Inr (s\<lparr>e_top_aus_ports := Some (top_aus_ports (lib_gsum lib) (filas d))\<rparr>)))"

definition linea_47 :: "biblioteca \<Rightarrow> estado \<Rightarrow> exn + estado" where
  "linea_47 lib s =
     (case leer_df s of
        Inl e \<Rightarrow> Inl e
      | Inr d \<Rightarrow>
          (case columna_clave ''Country'' d of
             Some e \<Rightarrow> Inl e
           | None \<Rightarrow> Inr (s\<lparr>e_top_countries := Some (top_countries (lib_gsum lib) (filas d))\<rparr>)))"

text \<open>Line 50 assigns a column of \<open>df\<close> itself: the table gains (or overwrites) Route.\<close>

definition con_columna :: "string \<Rightarrow> string list \<Rightarrow> string list" where
  "con_columna c header = (if c \<in> set header then header else header @ [c])"

definition linea_50 :: "estado \<Rightarrow> exn + estado" where
  "linea_50 s =
     (case leer_df s of
        Inl e \<Rightarrow> Inl e
      | Inr d \<Rightarrow>
          (case columna_clave ''AustralianPort'' d of
             Some e \<Rightarrow> Inl e
           | None \<Rightarrow>
               (case columna_foreign d of
                  Some e \<Rightarrow> Inl e
                | None \<Rightarrow> Inr (s\<lparr>e_df := Some (Limpia \<lparr>columns = con_columna ''Route'' (columns d),
                                                         filas = con_ruta (filas d)\<rparr>)\<rparr>))))"

definition linea_51 :: "biblioteca \<Rightarrow> estado \<Rightarrow> exn + estado" where
  "linea_51 lib s =
     (case leer_df s of
        Inl e \<Rightarrow> Inl e
      | Inr d \<Rightarrow>
          (case columna_clave ''Route'' d of
             Some e \<Rightarrow> Inl e
           | None \<Rightarrow> Inr (s\<lparr>e_top_routes :=
                 Some (top10 (lib_gsum lib ''Passengers_Total'') Route Passengers_Total (filas d))\<rparr>)))"

definition linea_54 :: "biblioteca \<Rightarrow> estado \<Rightarrow> exn + estado" where
  "linea_54 lib s =
     (case leer_df s of
        Inl e \<Rightarrow> Inl e
      | Inr d \<Rightarrow>
          (case columna_clave ''Country'' d of
             Some e \<Rightarrow> Inl e
           | None \<Rightarrow> Inr (s\<lparr>e_country_passengers :=
                 Some \<lparr>cp_columns = [''Country'', ''Passengers_Total''],
                       cp_filas = map (\<lambda>(c, v). \<lparr>cp_Country = c, cp_Passengers_Total = v,
                                                   cp_iso_alpha = None\<rparr>)
                                      (country_sums (lib_gsum lib) (filas d))\<rparr>\<rparr>)))"

text \<open>Line 75 assigns a column of \<open>country_passengers\<close> itself.\<close>

definition linea_75 :: "estado \<Rightarrow> exn + estado" where
  "linea_75 s =
     (case e_country_passengers s of
        None \<Rightarrow> Inl (NameError ''country_passengers'')
      | Some cp \<Rightarrow>
          Inr (s\<lparr>e_country_passengers :=
                 Some \<lparr>cp_columns = con_columna ''iso_alpha'' (cp_columns cp),
                       cp_filas = map (\<lambda>r. r\<lparr>cp_iso_alpha := iso_alpha (cp_Country r)\<rparr>)
                                      (cp_filas cp)\<rparr>\<rparr>))"

text \<open>Lines 83 to 127: each figure is made from one aggregate, which it reads.\<close>

definition crear_fig :: "string \<Rightarrow> (estado \<Rightarrow> 'a option) \<Rightarrow> ('a \<Rightarrow> figura) \<Rightarrow> estado \<Rightarrow> exn + estado" where
  "crear_fig nombre leer fig s =
     (case leer s of
        None \<Rightarrow> Inl (NameError nombre)
      | Some a \<Rightarrow> Inr (s\<lparr>e_figs := e_figs s @ [fig a]\<rparr>))"

definition linea_83 :: "estado \<Rightarrow> exn + estado" where
  "linea_83 = crear_fig ''yearly_traffic'' e_yearly_traffic fig_passengers_trend"

definition linea_90 :: "estado \<Rightarrow> exn + estado" where
  "linea_90 = crear_fig ''yearly_traffic'' e_yearly_traffic fig_freight_trend"

definition linea_97 :: "estado \<Rightarrow> exn + estado" where
  "linea_97 = crear_fig ''top_aus_ports'' e_top_aus_ports fig_top_ports"

definition linea_105 :: "estado \<Rightarrow> exn + estado" where
  "linea_105 = crear_fig ''top_countries'' e_top_countries fig_top_countries"

definition linea_113 :: "estado \<Rightarrow> exn + estado" where
  "linea_113 = crear_fig ''top_routes'' e_top_routes fig_top_routes"

definition linea_121 :: "estado \<Rightarrow> exn + estado" where
  "linea_121 = crear_fig ''country_passengers'' e_country_passengers (\<lambda>cp. fig_map (cp_filas cp))"

text \<open>Lines 130 to 218 read the years, the KPIs and the six figures.\<close>

definition linea_130 :: "biblioteca \<Rightarrow> (nat \<Rightarrow> string) \<Rightarrow> estado \<Rightarrow> exn + estado" where
  "linea_130 lib ids s =
     (case (e_years s, e_kpis s, e_figs s) of
        (Some (n, sy, ey), Some (tp, tf, tm), [f1, f2, f3, f4, f5, f6]) \<Rightarrow>
          Inr (s\<lparr>e_html := Some (plantilla lib ids sy ey tp tf tm f1 f2 f3 f4 f5 f6)\<rparr>)
      | _ \<Rightarrow> Inl (NameError ''html_content''))"

definition programa :: "biblioteca \<Rightarrow> (nat \<Rightarrow> string) \<Rightarrow> string \<Rightarrow> (estado \<Rightarrow> exn + estado) list" where
  "programa lib ids txt =
     [linea_15 lib txt, linea_18, linea_24 lib, linea_29 lib, linea_32, linea_37 lib,
      linea_44 lib, linea_47 lib, linea_50, linea_51 lib, linea_54 lib, linea_75,
      linea_83, linea_90, linea_97, linea_105, linea_113, linea_121, linea_130 lib ids]"

text \<open>
  The store after the first \<open>k\<close> statements, if none of them raised; after the last
  statement the store stays as it is.
\<close>

fun tras :: "(estado \<Rightarrow> exn + estado) list \<Rightarrow> nat \<Rightarrow> estado option" where
  "tras ps 0 = Some vacio"
| "tras ps (Suc k) =
     (case tras ps k of
        None \<Rightarrow> None
      | Some s \<Rightarrow>
          if k < length ps
          then (case (ps ! k) s of Inl e \<Rightarrow> None | Inr s' \<Rightarrow> Some s')
          else Some s)"

subsection \<open>Lines 13 to 229: files, the console and the two handlers\<close>








text \<open>
  What can be raised in Python is more than \<open>Exception\<close>: KeyboardInterrupt and
  SystemExit derive from BaseException only.
\<close>

datatype senal = KeyboardInterrupt | SystemExit










subsection \<open>Sample inputs\<close>

text \<open>
  An instance of the number reader for the examples: it reads unsigned decimal integer
  literals and nothing else.
\<close>

definition leer_entero :: "string \<Rightarrow> float64 option" where
  "leer_entero s =
     (if s \<noteq> [] \<and> list_all es_digito s then Some (Fin (of_nat (valor_dec s))) else None)"

text \<open>
  An instance of the summation routines for the examples. It adds from left to right
  by the rules of IEEE 754 for the infinities and NaN (\<open>inf + -inf\<close> is NaN) and adds
  finite values without rounding; on the small whole numbers of the examples float64
  addition does not round either.
\<close>

fun mas :: "float64 \<Rightarrow> float64 \<Rightarrow> float64" where
  "mas NaN y = NaN"
| "mas x NaN = NaN"
| "mas PInf NInf = NaN"
| "mas NInf PInf = NaN"
| "mas PInf y = PInf"
| "mas NInf y = NInf"
| "mas x PInf = PInf"
| "mas x NInf = NInf"
| "mas (Fin a) (Fin b) = Fin (a + b)"

definition suma_ej :: suma where
  "suma_ej xs = foldl mas (Fin 0) xs"

definition cabecera :: "string list" where
  "cabecera = [''AustralianPort'', ''ForeignPort'', ''Country'', ''Year'',
     ''Passengers_In'', ''Freight_In_(tonnes)'', ''Mail_In_(tonnes)'', ''Passengers_Out'',
     ''Freight_Out_(tonnes)'', ''Mail_Out_(tonnes)'', ''Passengers_Total'',
     ''Freight_Total_(tonnes)'', ''Mail_Total_(tonnes)'']"

text \<open>
  A table of two records as \<open>pd.read_csv\<close> returns it. The passenger counts of the
  first record are infinite (the text \<open>inf\<close> in the file), so these two columns are
  float64. Freight_In and Passengers_Out each hold a field that is not a number, so
  the columns are of dtype object and their cells are text. The Mail_In field of the
  first record is empty.
\<close>

definition ej_inf :: "cell dataframe" where
  "ej_inf = \<lparr>columns = cabecera,
     filas =
      [\<lparr>AustralianPort = Some ''Sydney'', ForeignPort = Some ''Auckland'',
        Country = Some ''New Zealand'', Year = Some 1985,
        Passengers_In = Numero PInf, Freight_In = Texto ''unknown'', Mail_In = Numero NaN,
        Passengers_Out = Texto ''12'', Freight_Out = Numero (Fin 0), Mail_Out = Numero (Fin 0),
        Passengers_Total = Numero PInf, Freight_Total = Numero (Fin 0),
        Mail_Total = Numero (Fin 0), Route = None\<rparr>,
       \<lparr>AustralianPort = Some ''Perth'', ForeignPort = Some ''Singapore'',
        Country = Some ''Singapore'', Year = Some 1986,
        Passengers_In = Numero (Fin 7), Freight_In = Texto ''3'', Mail_In = Numero (Fin 1),
        Passengers_Out = Texto ''abc'', Freight_Out = Numero (Fin 0), Mail_Out = Numero (Fin 0),
        Passengers_Total = Numero (Fin 7), Freight_Total = Numero (Fin 3),
        Mail_Total = Numero (Fin 1), Route = None\<rparr>]\<rparr>"

definition ej_inf_limpio :: "float64 dataframe" where
  "ej_inf_limpio = \<lparr>columns = [''AustralianPort'', ''ForeignPort'', ''Country'', ''Year''] @ cols_numericas,
     filas =
      [\<lparr>AustralianPort = Some ''Sydney'', ForeignPort = Some ''Auckland'',
        Country = Some ''New Zealand'', Year = Some 1985,
        Passengers_In = PInf, Freight_In = Fin 0, Mail_In = Fin 0,
        Passengers_Out = Fin 12, Freight_Out = Fin 0, Mail_Out = Fin 0,
        Passengers_Total = PInf, Freight_Total = Fin 0,
        Mail_Total = Fin 0, Route = None\<rparr>,
       \<lparr>AustralianPort = Some ''Perth'', ForeignPort = Some ''Singapore'',
        Country = Some ''Singapore'', Year = Some 1986,
        Passengers_In = Fin 7, Freight_In = Fin 3, Mail_In = Fin 1,
        Passengers_Out = Fin 0, Freight_Out = Fin 0, Mail_Out = Fin 0,
        Passengers_Total = Fin 7, Freight_Total = Fin 3,
        Mail_Total = Fin 1, Route = None\<rparr>]\<rparr>"

text \<open>A cleaned record with the given keys and totals.\<close>

definition registro ::
  "string option \<Rightarrow> string option \<Rightarrow> string option \<Rightarrow> int option
     \<Rightarrow> float64 \<Rightarrow> float64 \<Rightarrow> float64 \<Rightarrow> float64 row" where
  "registro a f c y p fr m =
     \<lparr>AustralianPort = a, ForeignPort = f, Country = c, Year = y,
      Passengers_In = p, Freight_In = fr, Mail_In = m,
      Passengers_Out = Fin 0, Freight_Out = Fin 0, Mail_Out = Fin 0,
      Passengers_Total = p, Freight_Total = fr, Mail_Total = m, Route = None\<rparr>"

text \<open>Twelve records: eleven Australian ports, seven countries, four years.\<close>

definition ej_once :: tabla where
  "ej_once =
    [registro (Some ''Adelaide'') (Some ''Auckland'') (Some ''New Zealand'') (Some 1985)
       (Fin 30) (Fin 1) (Fin 0),
     registro (Some ''Brisbane'') (Some ''Singapore'') (Some ''Singapore'') (Some 1985)
       (Fin 50) (Fin 2) (Fin 0),
     registro (Some ''Cairns'') (Some ''Tokyo'') (Some ''Japan'') (Some 1986)
       (Fin 20) (Fin 0) (Fin 0),
     registro (Some ''Darwin'') (Some ''Denpasar'') (Some ''Indonesia'') (Some 1986)
       (Fin 10) (Fin 0) (Fin 0),
     registro (Some ''Hobart'') (Some ''Christchurch'') (Some ''New Zealand'') (Some 1986)
       (Fin 5) (Fin 0) (Fin 0),
     registro (Some ''Melbourne'') (Some ''London'') (Some ''UK'') (Some 1985)
       (Fin 90) (Fin 3) (Fin 1),
     registro (Some ''Perth'') (Some ''Singapore'') (Some ''Singapore'') (Some 1987)
       (Fin 40) (Fin 1) (Fin 0),
     registro (Some ''Sydney'') (Some ''Auckland'') (Some ''New Zealand'') (Some 1985)
       (Fin 100) (Fin 5) (Fin 2),
     registro (Some ''Townsville'') (Some ''Port Moresby'') (Some ''Papua New Guinea'')
       (Some 1987) (Fin 8) (Fin 0) (Fin 0),
     registro (Some ''Norfolk Island'') (Some ''Auckland'') (Some ''New Zealand'') (Some 1987)
       (Fin 3) (Fin 0) (Fin 0),
     registro (Some ''Port Hedland'') (Some ''Denpasar'') (Some ''Indonesia'') (Some 1988)
       (Fin 2) (Fin 0) (Fin 0),
     registro (Some ''Sydney'') (Some ''Los Angeles'') (Some ''USA'') (Some 1988)
       (Fin 60) (Fin 4) (Fin 1)]"


text \<open>Two records, the second without its year (an empty Year field in the CSV file).\<close>

definition ej_sin_year :: tabla where
  "ej_sin_year =
    [registro (Some ''Sydney'') (Some ''Auckland'') (Some ''New Zealand'') (Some 1985)
       (Fin 10) (Fin 4) (Fin 1),
     registro (Some ''Sydney'') (Some ''Auckland'') (Some ''New Zealand'') None
       (Fin 5) (Fin 2) (Fin 1)]"



text \<open>
  Four records: Japan has an ISO code, \<open>Other\<close> is mapped to \<open>None\<close>, and \<open>Atlantis\<close> is
  not a key of the mapping.
\<close>

definition ej_otros :: tabla where
  "ej_otros =
    [registro (Some ''Sydney'') (Some ''Tokyo'') (Some ''Japan'') (Some 1985)
       (Fin 100) (Fin 0) (Fin 0),
     registro (Some ''Sydney'') (Some ''Elsewhere'') (Some ''Other'') (Some 1985)
       (Fin 40) (Fin 0) (Fin 0),
     registro (Some ''Perth'') (Some ''Atlantis City'') (Some ''Atlantis'') (Some 1986)
       (Fin 7) (Fin 0) (Fin 0),
     registro (Some ''Perth'') (Some ''Elsewhere'') (Some ''Other'') (Some 1986)
       (Fin 2) (Fin 0) (Fin 0)]"

text \<open>
  Two records: one of Japan in 1985, and one of \<open>Other\<close> without its year (an empty Year
  field in the CSV file).
\<close>

definition ej_otro_sin_year :: tabla where
  "ej_otro_sin_year =
    [registro (Some ''Sydney'') (Some ''Tokyo'') (Some ''Japan'') (Some 1985)
       (Fin 100) (Fin 0) (Fin 0),
     registro (Some ''Sydney'') (Some ''Elsewhere'') (Some ''Other'') None
       (Fin 40) (Fin 0) (Fin 0)]"













section \<open>Properties\<close>

subsection \<open>The cleaning stage\<close>

lemma primera_falla_None:
  "list_all (\<lambda>c. count_list header c = 1) cs \<Longrightarrow> primera_falla header cs = None"
proof (induction cs)
  case Nil
  then show ?case by simp
next
  case (Cons c cs)
  from Cons.prems have "c \<in> set header"
    using count_list_0_iff [of header c] by auto
  with Cons show ?case by (simp add: falla_col_def)
qed

lemma primera_falla_Some:
  "\<not> list_all (\<lambda>c. count_list header c = 1) cs \<Longrightarrow> \<exists>e. primera_falla header cs = Some e"
  by (induction cs) (auto simp add: falla_col_def)

lemma col_limpiar_fila:
  "c \<in> set cols_numericas \<Longrightarrow> col c (limpiar_fila parse r) = coerce parse (col c r)"
  by (auto simp add: cols_numericas_def col_def limpiar_fila_def)

lemma claves_limpiar_fila:
  "AustralianPort (limpiar_fila parse r) = AustralianPort r"
  "ForeignPort (limpiar_fila parse r) = ForeignPort r"
  "Country (limpiar_fila parse r) = Country r"
  "Year (limpiar_fila parse r) = Year r"
  by (simp_all add: limpiar_fila_def)

lemma coerce_casos:
  "coerce parse c \<noteq> NaN"
  "x \<noteq> NaN \<Longrightarrow> coerce parse (Numero x) = x"
  "coerce parse (Numero NaN) = Fin 0"
  "parse s = Some x \<Longrightarrow> x \<noteq> NaN \<Longrightarrow> coerce parse (Texto s) = x"
  "parse s = None \<Longrightarrow> coerce parse (Texto s) = Fin 0"
  by (simp_all add: coerce_def fillna_def to_numeric_def)

lemma strip_ascii:
  "strip ''AustralianPort'' = ''AustralianPort''" "strip ''ForeignPort'' = ''ForeignPort''"
  "strip ''Country'' = ''Country''" "strip ''Year'' = ''Year''"
  "strip ''Passengers_In'' = ''Passengers_In''" "strip ''Freight_In'' = ''Freight_In''"
  "strip ''Mail_In'' = ''Mail_In''" "strip ''Passengers_Out'' = ''Passengers_Out''"
  "strip ''Freight_Out'' = ''Freight_Out''" "strip ''Mail_Out'' = ''Mail_Out''"
  "strip ''Passengers_Total'' = ''Passengers_Total''" "strip ''Freight_Total'' = ''Freight_Total''"
  "strip ''Mail_Total'' = ''Mail_Total''"
  by (simp_all add: strip_def espacios_def quitar.simps)

lemma cabecera_limpia:
  "map limpiar_nombre cabecera
   = [''AustralianPort'', ''ForeignPort'', ''Country'', ''Year''] @ cols_numericas"
  by (simp add: cabecera_def limpiar_nombre_def strip_ascii cols_numericas_def)

lemma limpiar_ej_inf: "limpiar leer_entero ej_inf = Inr ej_inf_limpio"
  by (simp add: limpiar_def coercer_def renombrar_def ej_inf_def ej_inf_limpio_def
      cabecera_limpia cols_numericas_def falla_col_def limpiar_fila_def
      coerce_def to_numeric_def fillna_def leer_entero_def es_digito_def valor_dec_def)

text \<open>
  C3, as the claim states it, fails: a cell that is an infinity (the text \<open>inf\<close> of the
  CSV file, which pandas reads as a number) is a number, so \<open>errors='coerce'\<close> keeps it,
  and it is not NaN, so \<open>fillna(0)\<close> keeps it. After cleaning both records are still
  there and the Passengers_In of the first is not finite.
\<close>

theorem C3_infinito_counterexample:
  "limpiar leer_entero ej_inf = Inr ej_inf_limpio
   \<and> length (filas ej_inf_limpio) = length (filas ej_inf)
   \<and> Passengers_In (hd (filas ej_inf)) = Numero PInf
   \<and> Passengers_In (hd (filas ej_inf_limpio)) = PInf
   \<and> \<not> finito (Passengers_In (hd (filas ej_inf_limpio)))"
  using limpiar_ej_inf by (simp add: ej_inf_limpio_def ej_inf_def)

text \<open>
  C3, amended. For every table whose header has each of the nine numeric columns
  exactly once after the renaming of line 18, whatever white space (ASCII or not)
  surrounds the names, cleaning raises nothing, keeps every record and leaves its key
  columns as they were. Every value of the nine columns is then a float64 that is not
  NaN: it is the cell read with \<open>errors='coerce'\<close> and with NaN replaced by zero. So a
  number other than NaN stays as it is, an infinity included; text that reads as such
  a number becomes that number; and a missing value, or text that does not read as a
  number, becomes exactly zero. For any other header cleaning raises (KeyError for a
  missing column, TypeError for one that is there twice).
\<close>

theorem C3_limpiar_total:
  "(list_all (\<lambda>c. count_list (map limpiar_nombre (columns df)) c = 1) cols_numericas \<longrightarrow>
      (\<exists>d. limpiar parse df = Inr d
         \<and> columns d = map limpiar_nombre (columns df)
         \<and> length (filas d) = length (filas df)
         \<and> (\<forall>i < length (filas df).
              AustralianPort (filas d ! i) = AustralianPort (filas df ! i)
              \<and> ForeignPort (filas d ! i) = ForeignPort (filas df ! i)
              \<and> Country (filas d ! i) = Country (filas df ! i)
              \<and> Year (filas d ! i) = Year (filas df ! i)
              \<and> (\<forall>c \<in> set cols_numericas.
                   col c (filas d ! i) = fillna (Fin 0) (to_numeric parse (col c (filas df ! i)))
                   \<and> col c (filas d ! i) \<noteq> NaN
                   \<and> (\<forall>x. col c (filas df ! i) = Numero x \<and> x \<noteq> NaN \<longrightarrow>
                          col c (filas d ! i) = x)
                   \<and> (col c (filas df ! i) = Numero NaN \<longrightarrow> col c (filas d ! i) = Fin 0)
                   \<and> (\<forall>s x. col c (filas df ! i) = Texto s \<and> parse s = Some x \<and> x \<noteq> NaN \<longrightarrow>
                          col c (filas d ! i) = x)
                   \<and> (\<forall>s. col c (filas df ! i) = Texto s \<and> parse s = None \<longrightarrow>
                          col c (filas d ! i) = Fin 0)))))
   \<and> (\<not> list_all (\<lambda>c. count_list (map limpiar_nombre (columns df)) c = 1) cols_numericas \<longrightarrow>
      (\<exists>e. limpiar parse df = Inl e))"
proof (intro conjI impI)
  assume h: "list_all (\<lambda>c. count_list (map limpiar_nombre (columns df)) c = 1) cols_numericas"
  have eq: "limpiar parse df = Inr \<lparr>columns = map limpiar_nombre (columns df),
      filas = map (limpiar_fila parse) (filas df)\<rparr>"
    using primera_falla_None [OF h] by (simp add: limpiar_def coercer_def renombrar_def)
  show "\<exists>d. limpiar parse df = Inr d
         \<and> columns d = map limpiar_nombre (columns df)
         \<and> length (filas d) = length (filas df)
         \<and> (\<forall>i < length (filas df).
              AustralianPort (filas d ! i) = AustralianPort (filas df ! i)
              \<and> ForeignPort (filas d ! i) = ForeignPort (filas df ! i)
              \<and> Country (filas d ! i) = Country (filas df ! i)
              \<and> Year (filas d ! i) = Year (filas df ! i)
              \<and> (\<forall>c \<in> set cols_numericas.
                   col c (filas d ! i) = fillna (Fin 0) (to_numeric parse (col c (filas df ! i)))
                   \<and> col c (filas d ! i) \<noteq> NaN
                   \<and> (\<forall>x. col c (filas df ! i) = Numero x \<and> x \<noteq> NaN \<longrightarrow>
                          col c (filas d ! i) = x)
                   \<and> (col c (filas df ! i) = Numero NaN \<longrightarrow> col c (filas d ! i) = Fin 0)
                   \<and> (\<forall>s x. col c (filas df ! i) = Texto s \<and> parse s = Some x \<and> x \<noteq> NaN \<longrightarrow>
                          col c (filas d ! i) = x)
                   \<and> (\<forall>s. col c (filas df ! i) = Texto s \<and> parse s = None \<longrightarrow>
                          col c (filas d ! i) = Fin 0)))"
    unfolding eq
    using coerce_casos [where parse = parse]
    by (auto simp add: col_limpiar_fila claves_limpiar_fila coerce_def [symmetric])
next
  assume "\<not> list_all (\<lambda>c. count_list (map limpiar_nombre (columns df)) c = 1) cols_numericas"
  from primera_falla_Some [OF this] show "\<exists>e. limpiar parse df = Inl e"
    by (auto simp add: limpiar_def coercer_def renombrar_def)
qed

theorem C3_limpiar_total_witness:
  "list_all (\<lambda>c. count_list (map limpiar_nombre (columns ej_inf)) c = 1) cols_numericas
   \<and> (\<exists>d. limpiar leer_entero ej_inf = Inr d \<and> length (filas d) = 2
          \<and> col ''Passengers_In'' (filas d ! 0) = PInf
          \<and> col ''Freight_In'' (filas d ! 0) = Fin 0
          \<and> col ''Mail_In'' (filas d ! 0) = Fin 0
          \<and> col ''Passengers_Out'' (filas d ! 1) = Fin 0)"
proof -
  have h: "list_all (\<lambda>c. count_list (map limpiar_nombre (columns ej_inf)) c = 1) cols_numericas"
    by (simp add: ej_inf_def cabecera_limpia) (simp add: cols_numericas_def)
  have len: "length (filas ej_inf) = 2"
    and cs: "''Passengers_In'' \<in> set cols_numericas" "''Freight_In'' \<in> set cols_numericas"
      "''Mail_In'' \<in> set cols_numericas" "''Passengers_Out'' \<in> set cols_numericas"
    and c1: "col ''Passengers_In'' (filas ej_inf ! 0) = Numero PInf"
    and c2: "col ''Freight_In'' (filas ej_inf ! 0) = Texto ''unknown''"
    and c3: "col ''Mail_In'' (filas ej_inf ! 0) = Numero NaN"
    and c4: "col ''Passengers_Out'' (filas ej_inf ! 1) = Texto ''abc''"
    and ps: "leer_entero ''unknown'' = None" "leer_entero ''abc'' = None"
    by (simp_all add: ej_inf_def cols_numericas_def col_def leer_entero_def es_digito_def)
  from C3_limpiar_total [of ej_inf leer_entero] h obtain d where
    d: "limpiar leer_entero ej_inf = Inr d" "length (filas d) = length (filas ej_inf)"
    and r: "\<forall>i < length (filas ej_inf). \<forall>c \<in> set cols_numericas.
           (\<forall>x. col c (filas ej_inf ! i) = Numero x \<and> x \<noteq> NaN \<longrightarrow> col c (filas d ! i) = x)
           \<and> (col c (filas ej_inf ! i) = Numero NaN \<longrightarrow> col c (filas d ! i) = Fin 0)
           \<and> (\<forall>s. col c (filas ej_inf ! i) = Texto s \<and> leer_entero s = None \<longrightarrow>
                col c (filas d ! i) = Fin 0)"
    by blast
  from r len cs(1) c1 have "col ''Passengers_In'' (filas d ! 0) = PInf" by simp
  moreover from r len cs(2) c2 ps have "col ''Freight_In'' (filas d ! 0) = Fin 0" by simp
  moreover from r len cs(3) c3 have "col ''Mail_In'' (filas d ! 0) = Fin 0" by simp
  moreover from r len cs(4) c4 ps have "col ''Passengers_Out'' (filas d ! 1) = Fin 0" by simp
  ultimately show ?thesis using h d len by simp
qed

subsection \<open>Grouping\<close>

lemma distinct_claves: "distinct (claves key t)"
  by (simp add: claves_def)

lemma set_claves: "set (claves key t) = {k. \<exists>r \<in> set t. key r = Some k}"
proof -
  have "set (List.map_filter key t) = {k. \<exists>r \<in> set t. key r = Some k}"
    by (induction t) (auto simp add: List.map_filter_simps split: option.splits)
  then show ?thesis by (simp add: claves_def)
qed

text \<open>
  In exact arithmetic, summing the groups of distinct keys sums the rows that have one
  of the keys.
\<close>

lemma sum_grupos:
  fixes val :: "'r \<Rightarrow> rat"
  assumes "distinct ks"
  shows "sum_list (map (\<lambda>k. sum_list (map val (grupo key k t))) ks)
       = sum_list (map val (filter (\<lambda>r. \<exists>k \<in> set ks. key r = Some k) t))"
proof (induction t)
  case Nil
  then show ?case by (simp add: grupo_def)
next
  case (Cons r t)
  have one: "sum_list (map (\<lambda>k. if key r = Some k then val r else 0) ks)
           = (if \<exists>k \<in> set ks. key r = Some k then val r else 0)"
    using assms by (induction ks) auto
  have "sum_list (map (\<lambda>k. sum_list (map val (grupo key k (r # t)))) ks)
      = sum_list (map (\<lambda>k. (if key r = Some k then val r else 0)
                             + sum_list (map val (grupo key k t))) ks)"
    by (rule arg_cong [where f = sum_list]) (simp add: grupo_def)
  also have "\<dots> = sum_list (map (\<lambda>k. if key r = Some k then val r else 0) ks)
                 + sum_list (map (\<lambda>k. sum_list (map val (grupo key k t))) ks)"
    by (simp add: sum_list_addf)
  finally show ?case using Cons.IH one by simp
qed

lemma sum_groupby:
  fixes val :: "'r \<Rightarrow> rat"
  shows "sum_list (map (\<lambda>k. sum_list (map val (grupo key k t))) (claves key t))
       = sum_list (map val (filter (\<lambda>r. key r \<noteq> None) t))"
proof -
  have "filter (\<lambda>r. \<exists>k \<in> set (claves key t). key r = Some k) t
      = filter (\<lambda>r. key r \<noteq> None) t"
    by (rule filter_cong) (auto simp add: set_claves)
  then show ?thesis
    using sum_grupos [OF distinct_claves, of val key t key t] by simp
qed

lemma groupby_sum_entry:
  "(k, v) \<in> set (groupby_sum g key val t) \<longleftrightarrow>
     (\<exists>r \<in> set t. key r = Some k) \<and> v = g (map val (grupo key k t))"
  by (auto simp add: groupby_sum_def set_claves)

lemma distinct_keys_groupby: "distinct (map fst (groupby_sum g key val t))"
  by (simp add: groupby_sum_def comp_def distinct_claves)

subsection \<open>Exactly summable values\<close>

lemma entero_Ints: "entero x \<longleftrightarrow> (\<exists>q. x = Fin q \<and> q \<in> \<int>)"
proof (cases x)
  case (Fin q)
  have "of_int \<lfloor>q\<rfloor> = q \<longleftrightarrow> q \<in> \<int>"
    by (metis Ints_of_int of_int_floor)
  with Fin show ?thesis by simp
qed simp_all

lemma enteros_suma: "list_all entero xs \<Longrightarrow> sum_list (map racional xs) \<in> \<int>"
  by (induction xs) (auto simp add: entero_Ints)

lemma magnitud_no_neg: "0 \<le> magnitud x"
  by (cases x) simp_all

lemma magnitud_suma: "\<bar>sum_list (map racional xs)\<bar> \<le> sum_list (map magnitud xs)"
proof (induction xs)
  case Nil
  then show ?case by simp
next
  case (Cons x xs)
  have "\<bar>racional x\<bar> \<le> magnitud x" by (cases x) simp_all
  with Cons show ?case by simp
qed

lemma magnitud_suma_val:
  "\<bar>\<Sum>x\<leftarrow>xs. racional (val x)\<bar> \<le> (\<Sum>x\<leftarrow>xs. magnitud (val x))"
  using magnitud_suma [of "map val xs"] by (simp add: comp_def)

lemma magnitud_filter:
  "sum_list (map magnitud (map val (filter P t))) \<le> sum_list (map magnitud (map val t))"
proof (induction t)
  case Nil
  then show ?case by simp
next
  case (Cons r t)
  then show ?case using magnitud_no_neg [of "val r"] by simp
qed

lemma enteros_filter:
  assumes "enteros_pequenos (map val t)"
  shows "enteros_pequenos (map val (filter P t))"
proof -
  from assms have "list_all entero (map val (filter P t))"
    by (simp add: enteros_pequenos_def list_all_iff)
  moreover from assms have "sum_list (map magnitud (map val (filter P t))) < 2 ^ 53"
    using magnitud_filter [of val P t] by (simp add: enteros_pequenos_def)
  ultimately show ?thesis by (simp add: enteros_pequenos_def)
qed

text \<open>
  Conservation under grouping, for exact routines on exactly summable values: the sum
  of the group sums is the sum over the rows that have a key.
\<close>

lemma conserva:
  assumes s: "exacta s" and g: "exacta g" and t: "enteros_pequenos (map val t)"
  shows "s (map (\<lambda>k. g (map val (grupo key k t))) (claves key t))
       = s (map val (filter (\<lambda>r. key r \<noteq> None) t))"
proof -
  let ?ks = "claves key t"
  let ?q = "\<lambda>k. sum_list (map racional (map val (grupo key k t)))"
  have gk: "enteros_pequenos (map val (grupo key k t))" for k
    unfolding grupo_def by (rule enteros_filter [OF t])
  have eg: "g (map val (grupo key k t)) = Fin (?q k)" for k
    using g gk [of k] by (simp add: exacta_def)
  have L: "map (\<lambda>k. g (map val (grupo key k t))) ?ks = map (\<lambda>k. Fin (?q k)) ?ks"
    by (simp add: eg)
  have ent: "list_all entero (map (\<lambda>k. Fin (?q k)) ?ks)"
  proof -
    have "?q k \<in> \<int>" for k
      using gk [of k] enteros_suma [of "map val (grupo key k t)"]
      by (simp add: enteros_pequenos_def)
    then show ?thesis by (simp add: list_all_iff entero_Ints)
  qed
  have "sum_list (map magnitud (map (\<lambda>k. Fin (?q k)) ?ks))
      = sum_list (map (\<lambda>k. \<bar>?q k\<bar>) ?ks)"
    by (simp add: comp_def)
  also have "\<dots> \<le> sum_list (map (\<lambda>k. sum_list (map (magnitud \<circ> val) (grupo key k t))) ?ks)"
    by (rule sum_list_mono) (simp add: comp_def magnitud_suma_val)
  also have "\<dots> = sum_list (map (magnitud \<circ> val) (filter (\<lambda>r. key r \<noteq> None) t))"
    by (rule sum_groupby)
  also have "\<dots> \<le> sum_list (map magnitud (map val t))"
    using magnitud_filter [of val "\<lambda>r. key r \<noteq> None" t] by (simp add: comp_def)
  also have "\<dots> < 2 ^ 53" using t by (simp add: enteros_pequenos_def)
  finally have peq: "enteros_pequenos (map (\<lambda>k. Fin (?q k)) ?ks)"
    using ent by (simp add: enteros_pequenos_def)
  have "s (map (\<lambda>k. Fin (?q k)) ?ks) = Fin (sum_list (map ?q ?ks))"
    using s peq by (simp add: exacta_def comp_def)
  also have "sum_list (map ?q ?ks)
      = sum_list (map (racional \<circ> val) (filter (\<lambda>r. key r \<noteq> None) t))"
    using sum_groupby [of "racional \<circ> val" key t] by (simp add: comp_def)
  also have "Fin (sum_list (map (racional \<circ> val) (filter (\<lambda>r. key r \<noteq> None) t)))
      = s (map val (filter (\<lambda>r. key r \<noteq> None) t))"
    using s enteros_filter [OF t, of "\<lambda>r. key r \<noteq> None"] by (simp add: exacta_def comp_def)
  finally have "s (map (\<lambda>k. Fin (?q k)) ?ks) = s (map val (filter (\<lambda>r. key r \<noteq> None) t))" .
  then show ?thesis unfolding L .
qed

text \<open>The routine of the examples is exact.\<close>

lemma foldl_mas:
  "list_all finito xs \<Longrightarrow> foldl mas (Fin a) xs = Fin (a + sum_list (map racional xs))"
proof (induction xs arbitrary: a)
  case Nil
  then show ?case by simp
next
  case (Cons x xs)
  then show ?case by (cases x) (simp_all add: add.assoc)
qed

lemma exacta_suma_ej: "exacta suma_ej"
proof -
  have "list_all finito xs" if "list_all entero xs" for xs
    using that by (induction xs) (auto simp add: entero_Ints)
  then show ?thesis
    by (simp add: exacta_def enteros_pequenos_def suma_ej_def foldl_mas)
qed

subsection \<open>The yearly table\<close>

lemma yt_columnas:
  "map yt_Passengers_Total (yearly_traffic g t)
     = map (\<lambda>y. g ''Passengers_Total'' (map Passengers_Total (grupo Year y t))) (claves Year t)"
  "map yt_Freight_Total (yearly_traffic g t)
     = map (\<lambda>y. g ''Freight_Total'' (map Freight_Total (grupo Year y t))) (claves Year t)"
  "map yt_Mail_Total (yearly_traffic g t)
     = map (\<lambda>y. g ''Mail_Total'' (map Mail_Total (grupo Year y t))) (claves Year t)"
  by (simp_all add: yearly_traffic_def comp_def)

lemma filter_todo: "list_all P t \<Longrightarrow> filter P t = t"
  by (simp add: list_all_iff)

text \<open>
  C2, as the claim states it, fails: \<open>groupby('Year')\<close> leaves out the rows whose Year
  is missing, while the sum of a column takes every row. With one record of 1985 (10
  passengers) and one record without a year (5 passengers) the column sums to 15 and
  the yearly table to 10. (Sums of such small whole numbers are exact in float64 and in
  int64, whatever the order of the additions.)
\<close>

theorem C2_sin_year_counterexample:
  "total_passengers (\<lambda>c. suma_ej) ej_sin_year = Fin 15
   \<and> yearly_traffic (\<lambda>c. suma_ej) ej_sin_year = [(1985, Fin 10, Fin 4, Fin 1)]
   \<and> suma_ej (map yt_Passengers_Total (yearly_traffic (\<lambda>c. suma_ej) ej_sin_year)) = Fin 10"
  by (simp add: total_passengers_def yearly_traffic_def claves_def grupo_def ej_sin_year_def
      registro_def suma_ej_def List.map_filter_simps)

text \<open>
  C2, amended. Take any summation routines of pandas that are exact on whole numbers
  whose magnitudes sum to less than \<open>2 ^ 53\<close>, and a cleaned table in which the values of
  the metric are such numbers. Then the sum of the metric over the yearly table is the
  sum of the metric over the rows that have a Year; so it is the sum over all rows of
  the table when no row lacks its Year. This holds for each of the three metrics.
\<close>

theorem C2_yearly_conserva:
  "(exacta (s ''Passengers_Total'') \<and> exacta (g ''Passengers_Total'')
      \<and> enteros_pequenos (map Passengers_Total t) \<longrightarrow>
        s ''Passengers_Total'' (map yt_Passengers_Total (yearly_traffic g t))
          = s ''Passengers_Total'' (map Passengers_Total (filter (\<lambda>r. Year r \<noteq> None) t))
        \<and> (list_all (\<lambda>r. Year r \<noteq> None) t \<longrightarrow>
             s ''Passengers_Total'' (map yt_Passengers_Total (yearly_traffic g t))
               = total_passengers s t))
   \<and> (exacta (s ''Freight_Total'') \<and> exacta (g ''Freight_Total'')
      \<and> enteros_pequenos (map Freight_Total t) \<longrightarrow>
        s ''Freight_Total'' (map yt_Freight_Total (yearly_traffic g t))
          = s ''Freight_Total'' (map Freight_Total (filter (\<lambda>r. Year r \<noteq> None) t))
        \<and> (list_all (\<lambda>r. Year r \<noteq> None) t \<longrightarrow>
             s ''Freight_Total'' (map yt_Freight_Total (yearly_traffic g t))
               = total_freight s t))
   \<and> (exacta (s ''Mail_Total'') \<and> exacta (g ''Mail_Total'')
      \<and> enteros_pequenos (map Mail_Total t) \<longrightarrow>
        s ''Mail_Total'' (map yt_Mail_Total (yearly_traffic g t))
          = s ''Mail_Total'' (map Mail_Total (filter (\<lambda>r. Year r \<noteq> None) t))
        \<and> (list_all (\<lambda>r. Year r \<noteq> None) t \<longrightarrow>
             s ''Mail_Total'' (map yt_Mail_Total (yearly_traffic g t))
               = total_mail s t))"
  using conserva [of "s ''Passengers_Total''" "g ''Passengers_Total''" Passengers_Total t Year]
    conserva [of "s ''Freight_Total''" "g ''Freight_Total''" Freight_Total t Year]
    conserva [of "s ''Mail_Total''" "g ''Mail_Total''" Mail_Total t Year]
  by (simp add: yt_columnas filter_todo total_passengers_def total_freight_def total_mail_def)

lemma years_ej_once: "list_all (\<lambda>r. Year r \<noteq> None) ej_once"
  by (simp add: ej_once_def registro_def)

lemma enteros_ej_once:
  "enteros_pequenos (map Passengers_Total ej_once)"
  "enteros_pequenos (map Freight_Total ej_once)"
  "enteros_pequenos (map Mail_Total ej_once)"
  by (simp_all add: enteros_pequenos_def ej_once_def registro_def)

lemma totales_ej_once:
  "total_passengers (\<lambda>c. suma_ej) ej_once = Fin 418"
  "total_freight (\<lambda>c. suma_ej) ej_once = Fin 16"
  "total_mail (\<lambda>c. suma_ej) ej_once = Fin 4"
  by (simp_all add: ej_once_def registro_def total_passengers_def total_freight_def
      total_mail_def suma_ej_def)

theorem C2_yearly_conserva_witness:
  "list_all (\<lambda>r. Year r \<noteq> None) ej_once
   \<and> enteros_pequenos (map Passengers_Total ej_once)
   \<and> enteros_pequenos (map Freight_Total ej_once)
   \<and> enteros_pequenos (map Mail_Total ej_once)
   \<and> suma_ej (map yt_Passengers_Total (yearly_traffic (\<lambda>c. suma_ej) ej_once)) = Fin 418
   \<and> suma_ej (map yt_Freight_Total (yearly_traffic (\<lambda>c. suma_ej) ej_once)) = Fin 16
   \<and> suma_ej (map yt_Mail_Total (yearly_traffic (\<lambda>c. suma_ej) ej_once)) = Fin 4"
proof -
  note t = C2_yearly_conserva [of "\<lambda>c. suma_ej" "\<lambda>c. suma_ej" ej_once]
  from t years_ej_once enteros_ej_once(1) exacta_suma_ej
  have p: "suma_ej (map yt_Passengers_Total (yearly_traffic (\<lambda>c. suma_ej) ej_once))
      = total_passengers (\<lambda>c. suma_ej) ej_once"
    by blast
  from t years_ej_once enteros_ej_once(2) exacta_suma_ej
  have f: "suma_ej (map yt_Freight_Total (yearly_traffic (\<lambda>c. suma_ej) ej_once))
      = total_freight (\<lambda>c. suma_ej) ej_once"
    by blast
  from t years_ej_once enteros_ej_once(3) exacta_suma_ej
  have m: "suma_ej (map yt_Mail_Total (yearly_traffic (\<lambda>c. suma_ej) ej_once))
      = total_mail (\<lambda>c. suma_ej) ej_once"
    by blast
  from p f m years_ej_once enteros_ej_once totales_ej_once show ?thesis by simp
qed

subsection \<open>The rankings\<close>



lemma set_top10: "set (top10 g key val t) \<subseteq> set (groupby_sum g key val t)"
  by (auto simp add: top10_def sort_values_def nlargest_def dest: in_set_takeD)













subsection \<open>The KPI texts\<close>

lemma of_char_digito: "d < 10 \<Longrightarrow> (of_char (digito d) :: nat) = 48 + d"
  by (simp add: digito_def)


lemma digito_no_coma: "d < 10 \<Longrightarrow> digito d \<noteq> CHR '',''"
proof
  assume "d < 10" and "digito d = CHR '',''"
  then have "(of_char (digito d) :: nat) = of_char (CHR '','')" by simp
  with \<open>d < 10\<close> show False by (simp add: of_char_digito)
qed




































subsection \<open>Countries without an ISO code\<close>

lemma cp_iso:
  "r \<in> set (country_passengers g t) \<Longrightarrow> cp_iso_alpha r = iso_alpha (cp_Country r)"
  by (auto simp add: country_passengers_def)

lemma iso_alpha_None:
  "iso_alpha c = None \<longleftrightarrow> map_of country_iso_map c = None \<or> map_of country_iso_map c = Some None"
  by (auto simp add: iso_alpha_def split: option.splits)

lemma en_grupo: "r \<in> set t \<Longrightarrow> key r = Some k \<Longrightarrow> r \<in> set (grupo key k t)"
  by (simp add: grupo_def)

lemma en_grupo_ruta:
  "r \<in> set t \<Longrightarrow> ruta r = Some k \<Longrightarrow> r\<lparr>Route := Some k\<rparr> \<in> set (grupo Route k (con_ruta t))"
  by (force simp add: grupo_def con_ruta_def)

lemma en_yearly:
  "r \<in> set t \<Longrightarrow> Year r = Some y \<Longrightarrow>
   (y, g ''Passengers_Total'' (map Passengers_Total (grupo Year y t)),
       g ''Freight_Total'' (map Freight_Total (grupo Year y t)),
       g ''Mail_Total'' (map Mail_Total (grupo Year y t))) \<in> set (yearly_traffic g t)"
  by (auto simp add: yearly_traffic_def set_claves)

text \<open>With at most ten groups a ranking holds all of them.\<close>

lemma top10_todos:
  "length (groupby_sum g key val t) \<le> 10 \<Longrightarrow>
   set (top10 g key val t) = set (groupby_sum g key val t)"
  by (simp add: top10_def sort_values_def nlargest_def)

lemma fig_map_puntos:
  "length (locations (fig_map cp)) = length (hover_name (fig_map cp))"
  "i < length cp \<Longrightarrow> hover_name (fig_map cp) ! i = cp_Country (cp ! i)"
  "i < length cp \<Longrightarrow> locations (fig_map cp) ! i = cp_iso_alpha (cp ! i)"
  "length (hover_name (fig_map cp)) = length cp"
  by (simp_all add: fig_map_def)

text \<open>
  C7, as the claim states it, fails in its last part: the rows of a country without an
  ISO code are not in every other aggregate. \<open>groupby\<close> leaves out the rows whose key
  is missing, whatever their country. Here the record of \<open>Other\<close> has no year: its 40
  passengers are in the KPI (140) and in no yearly sum (the only one is 100, for 1985).
\<close>

theorem C7_sin_year_counterexample:
  "map_of country_iso_map ''Other'' = Some None
   \<and> map Country ej_otro_sin_year = [Some ''Japan'', Some ''Other'']
   \<and> map Year ej_otro_sin_year = [Some 1985, None]
   \<and> map Passengers_Total ej_otro_sin_year = [Fin 100, Fin 40]
   \<and> total_passengers (\<lambda>c. suma_ej) ej_otro_sin_year = Fin 140
   \<and> yearly_traffic (\<lambda>c. suma_ej) ej_otro_sin_year = [(1985, Fin 100, Fin 0, Fin 0)]"
  by (simp add: country_iso_map_def ej_otro_sin_year_def registro_def total_passengers_def
      yearly_traffic_def claves_def grupo_def suma_ej_def List.map_filter_simps)

text \<open>
  C7, amended. Let \<open>c\<close> be a name that is not a key of the mapping, or is mapped to
  \<open>None\<close>. For every cleaned table and all summation routines: if \<open>c\<close> is a country of
  the table, \<open>country_passengers\<close> has its row, with the sum of its passengers and a
  missing \<open>iso_alpha\<close>, and every point that the choropleth receives for \<open>c\<close> has no
  location, so no region is drawn for it. The other aggregates never consult the
  mapping: the KPI sums the column over all rows; every row of \<open>c\<close> that has a year, a
  port or a route lies, with its Passengers_Total as it is in the table, in the group
  of that year, port or route, whose sum is the entry of the yearly table or the
  candidate of the ranking; and the sum of the rows of \<open>c\<close> is the candidate of \<open>c\<close>
  for the ranking of countries. A ranking takes its entries from its candidates, all of
  them when there are at most ten.
\<close>

theorem C7_sin_iso:
  assumes m: "map_of country_iso_map c = None \<or> map_of country_iso_map c = Some None"
  shows "((\<exists>r \<in> set t. Country r = Some c) \<longrightarrow>
        \<lparr>cp_Country = c,
         cp_Passengers_Total = g ''Passengers_Total'' (map Passengers_Total (grupo Country c t)),
         cp_iso_alpha = None\<rparr> \<in> set (country_passengers g t))
    \<and> (\<forall>r \<in> set (country_passengers g t). cp_Country r = c \<longrightarrow> cp_iso_alpha r = None)
    \<and> length (locations (fig_map (country_passengers g t)))
        = length (hover_name (fig_map (country_passengers g t)))
    \<and> (\<forall>i < length (hover_name (fig_map (country_passengers g t))).
          hover_name (fig_map (country_passengers g t)) ! i = c \<longrightarrow>
          locations (fig_map (country_passengers g t)) ! i = None)
    \<and> total_passengers s t = s ''Passengers_Total'' (map Passengers_Total t)
    \<and> (\<forall>r \<in> set t. Country r = Some c \<longrightarrow>
          (\<forall>y. Year r = Some y \<longrightarrow>
             r \<in> set (grupo Year y t)
             \<and> (y, g ''Passengers_Total'' (map Passengers_Total (grupo Year y t)),
                   g ''Freight_Total'' (map Freight_Total (grupo Year y t)),
                   g ''Mail_Total'' (map Mail_Total (grupo Year y t)))
                 \<in> set (yearly_traffic g t))
          \<and> (\<forall>k. AustralianPort r = Some k \<longrightarrow>
             r \<in> set (grupo AustralianPort k t)
             \<and> (k, g ''Passengers_Total'' (map Passengers_Total (grupo AustralianPort k t)))
                 \<in> set (groupby_sum (g ''Passengers_Total'') AustralianPort Passengers_Total t))
          \<and> (\<forall>k. ruta r = Some k \<longrightarrow>
             r\<lparr>Route := Some k\<rparr> \<in> set (grupo Route k (con_ruta t))
             \<and> Passengers_Total (r\<lparr>Route := Some k\<rparr>) = Passengers_Total r
             \<and> (k, g ''Passengers_Total'' (map Passengers_Total (grupo Route k (con_ruta t))))
                 \<in> set (groupby_sum (g ''Passengers_Total'') Route Passengers_Total (con_ruta t)))
          \<and> r \<in> set (grupo Country c t)
          \<and> (c, g ''Passengers_Total'' (map Passengers_Total (grupo Country c t)))
                 \<in> set (groupby_sum (g ''Passengers_Total'') Country Passengers_Total t))
    \<and> set (top_aus_ports g t)
        \<subseteq> set (groupby_sum (g ''Passengers_Total'') AustralianPort Passengers_Total t)
    \<and> set (top_countries g t)
        \<subseteq> set (groupby_sum (g ''Passengers_Total'') Country Passengers_Total t)
    \<and> set (top_routes g t)
        \<subseteq> set (groupby_sum (g ''Passengers_Total'') Route Passengers_Total (con_ruta t))
    \<and> (length (groupby_sum (g ''Passengers_Total'') AustralianPort Passengers_Total t) \<le> 10 \<longrightarrow>
         set (top_aus_ports g t)
           = set (groupby_sum (g ''Passengers_Total'') AustralianPort Passengers_Total t))
    \<and> (length (groupby_sum (g ''Passengers_Total'') Country Passengers_Total t) \<le> 10 \<longrightarrow>
         set (top_countries g t)
           = set (groupby_sum (g ''Passengers_Total'') Country Passengers_Total t))
    \<and> (length (groupby_sum (g ''Passengers_Total'') Route Passengers_Total (con_ruta t)) \<le> 10 \<longrightarrow>
         set (top_routes g t)
           = set (groupby_sum (g ''Passengers_Total'') Route Passengers_Total (con_ruta t)))"
proof -
  let ?P = "g ''Passengers_Total''"
  let ?cp = "country_passengers g t"
  from m have iso: "iso_alpha c = None" by (simp add: iso_alpha_None)
  have a: "(\<exists>r \<in> set t. Country r = Some c) \<longrightarrow>
        \<lparr>cp_Country = c, cp_Passengers_Total = ?P (map Passengers_Total (grupo Country c t)),
         cp_iso_alpha = None\<rparr> \<in> set ?cp"
  proof
    assume "\<exists>r \<in> set t. Country r = Some c"
    then have "(c, ?P (map Passengers_Total (grupo Country c t)))
        \<in> set (groupby_sum ?P Country Passengers_Total t)"
      by (simp add: groupby_sum_entry)
    then show "\<lparr>cp_Country = c, cp_Passengers_Total = ?P (map Passengers_Total (grupo Country c t)),
         cp_iso_alpha = None\<rparr> \<in> set ?cp"
      using iso by (force simp add: country_passengers_def country_sums_def)
  qed
  have b: "\<forall>r \<in> set ?cp. cp_Country r = c \<longrightarrow> cp_iso_alpha r = None"
    using cp_iso [of _ g t] iso by auto
  have f1: "length (locations (fig_map ?cp)) = length (hover_name (fig_map ?cp))"
    by (rule fig_map_puntos(1))
  have f2: "\<forall>i < length (hover_name (fig_map ?cp)).
      hover_name (fig_map ?cp) ! i = c \<longrightarrow> locations (fig_map ?cp) ! i = None"
  proof (intro allI impI)
    fix i
    assume i: "i < length (hover_name (fig_map ?cp))" and h: "hover_name (fig_map ?cp) ! i = c"
    from i have l: "i < length ?cp" by (simp add: fig_map_puntos(4))
    then have "?cp ! i \<in> set ?cp" by simp
    moreover from h l have "cp_Country (?cp ! i) = c" by (simp add: fig_map_puntos(2))
    ultimately have "cp_iso_alpha (?cp ! i) = None" using b by blast
    with l show "locations (fig_map ?cp) ! i = None" by (simp add: fig_map_puntos(3))
  qed
  have k: "total_passengers s t = s ''Passengers_Total'' (map Passengers_Total t)"
    by (simp add: total_passengers_def)
  have r: "\<forall>r \<in> set t. Country r = Some c \<longrightarrow>
          (\<forall>y. Year r = Some y \<longrightarrow>
             r \<in> set (grupo Year y t)
             \<and> (y, g ''Passengers_Total'' (map Passengers_Total (grupo Year y t)),
                   g ''Freight_Total'' (map Freight_Total (grupo Year y t)),
                   g ''Mail_Total'' (map Mail_Total (grupo Year y t)))
                 \<in> set (yearly_traffic g t))
          \<and> (\<forall>k. AustralianPort r = Some k \<longrightarrow>
             r \<in> set (grupo AustralianPort k t)
             \<and> (k, ?P (map Passengers_Total (grupo AustralianPort k t)))
                 \<in> set (groupby_sum ?P AustralianPort Passengers_Total t))
          \<and> (\<forall>k. ruta r = Some k \<longrightarrow>
             r\<lparr>Route := Some k\<rparr> \<in> set (grupo Route k (con_ruta t))
             \<and> Passengers_Total (r\<lparr>Route := Some k\<rparr>) = Passengers_Total r
             \<and> (k, ?P (map Passengers_Total (grupo Route k (con_ruta t))))
                 \<in> set (groupby_sum ?P Route Passengers_Total (con_ruta t)))
          \<and> r \<in> set (grupo Country c t)
          \<and> (c, ?P (map Passengers_Total (grupo Country c t)))
                 \<in> set (groupby_sum ?P Country Passengers_Total t)"
  proof (intro ballI impI conjI allI)
    fix r y assume "r \<in> set t" "Year r = Some y"
    then show "r \<in> set (grupo Year y t)" by (rule en_grupo)
  next
    fix r y assume "r \<in> set t" "Year r = Some y"
    then show "(y, g ''Passengers_Total'' (map Passengers_Total (grupo Year y t)),
                   g ''Freight_Total'' (map Freight_Total (grupo Year y t)),
                   g ''Mail_Total'' (map Mail_Total (grupo Year y t)))
                 \<in> set (yearly_traffic g t)"
      by (rule en_yearly)
  next
    fix r k assume "r \<in> set t" "AustralianPort r = Some k"
    then show "r \<in> set (grupo AustralianPort k t)" by (rule en_grupo)
  next
    fix r k assume "r \<in> set t" "AustralianPort r = Some k"
    then show "(k, ?P (map Passengers_Total (grupo AustralianPort k t)))
                 \<in> set (groupby_sum ?P AustralianPort Passengers_Total t)"
      by (auto simp add: groupby_sum_entry)
  next
    fix r k assume "r \<in> set t" "ruta r = Some k"
    then show "r\<lparr>Route := Some k\<rparr> \<in> set (grupo Route k (con_ruta t))" by (rule en_grupo_ruta)
  next
    fix r :: "float64 row" and k
    show "Passengers_Total (r\<lparr>Route := Some k\<rparr>) = Passengers_Total r" by simp
  next
    fix r k assume "r \<in> set t" "ruta r = Some k"
    then have "r\<lparr>Route := Some k\<rparr> \<in> set (con_ruta t)" by (force simp add: con_ruta_def)
    then show "(k, ?P (map Passengers_Total (grupo Route k (con_ruta t))))
                 \<in> set (groupby_sum ?P Route Passengers_Total (con_ruta t))"
      by (force simp add: groupby_sum_entry)
  next
    fix r assume "r \<in> set t" "Country r = Some c"
    then show "r \<in> set (grupo Country c t)" by (rule en_grupo)
  next
    fix r assume "r \<in> set t" "Country r = Some c"
    then show "(c, ?P (map Passengers_Total (grupo Country c t)))
                 \<in> set (groupby_sum ?P Country Passengers_Total t)"
      by (auto simp add: groupby_sum_entry)
  qed
  have s: "set (top_aus_ports g t) \<subseteq> set (groupby_sum ?P AustralianPort Passengers_Total t)"
    "set (top_countries g t) \<subseteq> set (groupby_sum ?P Country Passengers_Total t)"
    "set (top_routes g t) \<subseteq> set (groupby_sum ?P Route Passengers_Total (con_ruta t))"
    unfolding top_aus_ports_def top_countries_def top_routes_def by (rule set_top10)+
  have e: "length (groupby_sum ?P AustralianPort Passengers_Total t) \<le> 10 \<longrightarrow>
         set (top_aus_ports g t) = set (groupby_sum ?P AustralianPort Passengers_Total t)"
    "length (groupby_sum ?P Country Passengers_Total t) \<le> 10 \<longrightarrow>
         set (top_countries g t) = set (groupby_sum ?P Country Passengers_Total t)"
    "length (groupby_sum ?P Route Passengers_Total (con_ruta t)) \<le> 10 \<longrightarrow>
         set (top_routes g t) = set (groupby_sum ?P Route Passengers_Total (con_ruta t))"
    unfolding top_aus_ports_def top_countries_def top_routes_def
    by (simp_all add: top10_todos)
  from a b f1 f2 k r s e show ?thesis by blast
qed

lemma otros_iso: "map_of country_iso_map ''Other'' = Some None"
  by (simp add: country_iso_map_def)

lemma country_passengers_ej_otros:
  "country_passengers (\<lambda>c. suma_ej) ej_otros =
    [\<lparr>cp_Country = ''Atlantis'', cp_Passengers_Total = Fin 7, cp_iso_alpha = None\<rparr>,
     \<lparr>cp_Country = ''Japan'', cp_Passengers_Total = Fin 100, cp_iso_alpha = Some ''JPN''\<rparr>,
     \<lparr>cp_Country = ''Other'', cp_Passengers_Total = Fin 42, cp_iso_alpha = None\<rparr>]"
  by code_simp

theorem C7_sin_iso_witness:
  "(map_of country_iso_map ''Other'' = None \<or> map_of country_iso_map ''Other'' = Some None)
   \<and> (\<exists>r \<in> set ej_otros. Country r = Some ''Other'')
   \<and> \<lparr>cp_Country = ''Other'', cp_Passengers_Total = Fin 42, cp_iso_alpha = None\<rparr>
        \<in> set (country_passengers (\<lambda>c. suma_ej) ej_otros)
   \<and> hover_name (fig_map (country_passengers (\<lambda>c. suma_ej) ej_otros)) ! 2 = ''Other''
   \<and> locations (fig_map (country_passengers (\<lambda>c. suma_ej) ej_otros)) ! 2 = None
   \<and> locations (fig_map (country_passengers (\<lambda>c. suma_ej) ej_otros)) ! 1 = Some ''JPN''"
proof -
  have m: "map_of country_iso_map ''Other'' = None \<or> map_of country_iso_map ''Other'' = Some None"
    by (simp add: otros_iso)
  have p: "\<exists>r \<in> set ej_otros. Country r = Some ''Other''"
    by (simp add: ej_otros_def registro_def)
  have s: "suma_ej (map Passengers_Total (grupo Country ''Other'' ej_otros)) = Fin 42"
    by (simp add: ej_otros_def registro_def grupo_def suma_ej_def)
  have h: "hover_name (fig_map (country_passengers (\<lambda>c. suma_ej) ej_otros)) ! 2 = ''Other''"
    "2 < length (hover_name (fig_map (country_passengers (\<lambda>c. suma_ej) ej_otros)))"
    "locations (fig_map (country_passengers (\<lambda>c. suma_ej) ej_otros)) ! 1 = Some ''JPN''"
    by (simp_all add: country_passengers_ej_otros fig_map_def)
  note t = C7_sin_iso [OF m, of ej_otros "\<lambda>c. suma_ej"]
  from t p have a: "\<lparr>cp_Country = ''Other'',
      cp_Passengers_Total = suma_ej (map Passengers_Total (grupo Country ''Other'' ej_otros)),
      cp_iso_alpha = None\<rparr> \<in> set (country_passengers (\<lambda>c. suma_ej) ej_otros)"
    by blast
  from t h(1,2) have b: "locations (fig_map (country_passengers (\<lambda>c. suma_ej) ej_otros)) ! 2 = None"
    by blast
  from a b h m p show ?thesis unfolding s by blast
qed

subsection \<open>The run: files, console and handlers\<close>
























end
